theory Spec2Isabelle
  imports Complex_Main "HOL-Library.Log_Nat"
begin

section \<open>JavaScript values as the CLI sees them\<close>

text \<open>
  A JavaScript string is a sequence of UTF-16 code units. Code units are modelled as
  natural numbers, so that the cents sign U+00A2 is the single unit 162 and the
  Unicode white space beyond Latin-1 is representable. ASCII literals of the source are
  written \<open>str ''...''\<close>.
\<close>

type_synonym jsstring = "nat list"

definition str :: "string \<Rightarrow> jsstring" where
  "str s = map of_char s"

text \<open>
  \<open>String.prototype.toLowerCase\<close>, on the ASCII letters. Every use of it in this
  program compares the result with an all-ASCII key that contains no letter k; the only
  code point outside ASCII whose lower-case form lies inside ASCII is U+212A (to k), so
  the comparisons come out as in JavaScript for every input string.
\<close>

definition lowerUnit :: "nat \<Rightarrow> nat" where
  "lowerUnit c = (if 65 \<le> c \<and> c \<le> 90 then c + 32 else c)"

definition toLowerCase :: "jsstring \<Rightarrow> jsstring" where
  "toLowerCase s = map lowerUnit s"

text \<open>
  A JavaScript number: an IEEE-754 binary64 value. A finite double is carried by the
  rational it denotes (the two zeros are not told apart; no operation of this program
  distinguishes them).
\<close>

datatype jsnum = NaN | PosInf | NegInf | Fin rat

section \<open>Numbers: rounding to binary64, \<open>parseFloat\<close>\<close>

text \<open>
  \<open>floorLog2 a\<close> is the binary exponent of a positive rational: the integer \<open>k\<close>
  with \<open>2^k \<le> a < 2^(k+1)\<close>, read off the bit length of the integer part (or, below
  one, of the reciprocal).
\<close>

definition floorLog2 :: "rat \<Rightarrow> int" where
  "floorLog2 a =
     (if 1 \<le> a then int (floorlog 2 (nat \<lfloor>a\<rfloor>)) - 1
      else - int (floorlog 2 (nat (\<lceil>1 / a\<rceil> - 1))))"

definition roundHalfEven :: "rat \<Rightarrow> int" where
  "roundHalfEven x =
     (let f = \<lfloor>x\<rfloor>; r = x - of_int f in
      if r < 1 / 2 then f
      else if 1 / 2 < r then f + 1
      else if even f then f else f + 1)"

text \<open>
  The Number value of a real (ECMAScript, "the Number value for x"): round to nearest,
  ties to even, on a 53-bit significand whose unit in the last place is never below
  \<open>2^-1074\<close>; a result of magnitude \<open>2^1024\<close> is an infinity.
\<close>

definition toDouble :: "rat \<Rightarrow> jsnum" where
  "toDouble x =
     (if x = 0 then Fin 0
      else
        let a = \<bar>x\<bar>;
            e = max (floorLog2 a - 52) (- 1074);
            m = roundHalfEven (a / 2 powi e);
            v = of_int m * 2 powi e
        in if 2 ^ 1024 \<le> v then (if x < 0 then NegInf else PosInf)
           else Fin (if x < 0 then - v else v))"

fun negate :: "jsnum \<Rightarrow> jsnum" where
  "negate NaN = NaN"
| "negate PosInf = NegInf"
| "negate NegInf = PosInf"
| "negate (Fin a) = Fin (- a)"

text \<open>
  The program divides and multiplies only by the literal 100: \<open>cents / 100\<close> and
  \<open>dollars * 100\<close>. IEEE arithmetic rounds the exact result.
\<close>

fun divideBy :: "jsnum \<Rightarrow> rat \<Rightarrow> jsnum" where
  "divideBy NaN d = NaN"
| "divideBy PosInf d = PosInf"
| "divideBy NegInf d = NegInf"
| "divideBy (Fin a) d = toDouble (a / d)"

fun multiplyBy :: "jsnum \<Rightarrow> rat \<Rightarrow> jsnum" where
  "multiplyBy NaN d = NaN"
| "multiplyBy PosInf d = PosInf"
| "multiplyBy NegInf d = NegInf"
| "multiplyBy (Fin a) d = toDouble (a * d)"

text \<open>What \<open>x >= 0\<close> evaluates to.\<close>

fun nonNegative :: "jsnum \<Rightarrow> bool" where
  "nonNegative NaN = False"
| "nonNegative PosInf = True"
| "nonNegative NegInf = False"
| "nonNegative (Fin a) = (0 \<le> a)"

fun isFinite :: "jsnum \<Rightarrow> bool" where
  "isFinite (Fin a) = True"
| "isFinite _ = False"

text \<open>
  White space and line terminators of ECMAScript: what \<open>trim\<close>, \<open>parseFloat\<close> and the
  regular expression class \<open>\s\<close> skip.
\<close>

definition isWhiteSpace :: "nat \<Rightarrow> bool" where
  "isWhiteSpace c \<longleftrightarrow>
     (9 \<le> c \<and> c \<le> 13) \<or> c = 32 \<or> c = 160 \<or> c = 5760 \<or> (8192 \<le> c \<and> c \<le> 8202)
     \<or> c = 8232 \<or> c = 8233 \<or> c = 8239 \<or> c = 8287 \<or> c = 12288 \<or> c = 65279"

definition trimStart :: "jsstring \<Rightarrow> jsstring" where
  "trimStart s = dropWhile isWhiteSpace s"

definition trim :: "jsstring \<Rightarrow> jsstring" where
  "trim s = rev (dropWhile isWhiteSpace (rev (trimStart s)))"

definition startsWith :: "jsstring \<Rightarrow> jsstring \<Rightarrow> bool" where
  "startsWith s p \<longleftrightarrow> take (length p) s = p"

definition endsWith :: "jsstring \<Rightarrow> jsstring \<Rightarrow> bool" where
  "endsWith s p \<longleftrightarrow> length p \<le> length s \<and> drop (length s - length p) s = p"

definition isDigit :: "nat \<Rightarrow> bool" where
  "isDigit c \<longleftrightarrow> 48 \<le> c \<and> c \<le> 57"

definition digitsValue :: "jsstring \<Rightarrow> nat" where
  "digitsValue ds = foldl (\<lambda>a c. 10 * a + (c - 48)) 0 ds"

text \<open>
  The optional \<open>ExponentPart\<close> at the head of \<open>r\<close>: \<open>e\<close> or \<open>E\<close>, an optional sign, at
  least one digit. Anything else is no exponent and stays outside the literal.
\<close>

definition exponentPart :: "jsstring \<Rightarrow> int" where
  "exponentPart r =
     (case r of
        [] \<Rightarrow> 0
      | c # r1 \<Rightarrow>
          if c = 101 \<or> c = 69 then
            (case r1 of
               [] \<Rightarrow> 0
             | sg # r2 \<Rightarrow>
                 if sg = 43 \<or> sg = 45 then
                   (let ds = takeWhile isDigit r2 in
                    if ds = [] then 0
                    else if sg = 45 then - int (digitsValue ds) else int (digitsValue ds))
                 else
                   (let ds = takeWhile isDigit r1 in
                    if ds = [] then 0 else int (digitsValue ds)))
          else 0)"

text \<open>
  The longest prefix of \<open>t\<close> that is a \<open>StrUnsignedDecimalLiteral\<close>, as its Number
  value: \<open>Infinity\<close>, or digits with an optional fraction and exponent, or a fraction
  that starts with the point. No such prefix: \<open>NaN\<close>.
\<close>

definition strUnsignedDecimalLiteral :: "jsstring \<Rightarrow> jsnum" where
  "strUnsignedDecimalLiteral t =
     (if startsWith t (str ''Infinity'') then PosInf
      else
        let ip = takeWhile isDigit t;
            r1 = dropWhile isDigit t;
            fp = (case r1 of [] \<Rightarrow> [] | c # r \<Rightarrow> if c = 46 then takeWhile isDigit r else []);
            r2 = (case r1 of [] \<Rightarrow> [] | c # r \<Rightarrow> if c = 46 then dropWhile isDigit r else r1)
        in if ip = [] \<and> fp = [] then NaN
           else toDouble (of_nat (digitsValue (ip @ fp))
                          * 10 powi (exponentPart r2 - int (length fp))))"

definition parseFloat :: "jsstring \<Rightarrow> jsnum" where
  "parseFloat s =
     (case trimStart s of
        [] \<Rightarrow> NaN
      | c # r \<Rightarrow>
          if c = 45 then negate (strUnsignedDecimalLiteral r)
          else if c = 43 then strUnsignedDecimalLiteral r
          else strUnsignedDecimalLiteral (c # r))"

text \<open>
  \<open>parseInt(s, 10)\<close> on a string of decimal digits only, the one way the program
  calls it.
\<close>

definition parseIntDigits :: "jsstring \<Rightarrow> jsnum" where
  "parseIntDigits ds = toDouble (of_nat (digitsValue ds))"

section \<open>Amounts: \<open>parseAmount\<close> of the send command and of the batch command\<close>

text \<open>
  Every \<open>throw new Error(...)\<close> of the two commands, by its message; the payload is
  the value interpolated into the message.
\<close>

datatype error =
    InvalidCentsAmount jsstring          \<comment> \<open>Invalid cents amount: ...\<close>
  | InvalidDollarAmount jsstring         \<comment> \<open>Invalid dollar amount: ...\<close>
  | InvalidAmount jsstring               \<comment> \<open>Invalid amount: ...\<close>
  | ShellVariableAmount jsnum jsnum      \<comment> \<open>Dollar amounts like $n can be interpreted as shell variables. Please use c cents\<close>
  | InvalidXUsername jsstring
  | InvalidFarcasterUsername jsstring
  | InvalidGitHubUsername jsstring
  | InvalidEmailAddress jsstring
  | InvalidWebDomain jsstring
  | UnknownPlatform jsstring             \<comment> \<open>Unknown platform: ...\<close>
  | InvalidTargetFormat jsstring         \<comment> \<open>Invalid payment target format: ...\<close>
  | InvalidBatchFormat jsstring          \<comment> \<open>Invalid format: ... Expected: platform/receiver1:amount1,...\<close>
  | MissingAmountFor jsstring            \<comment> \<open>Missing amount for ... Format: receiver:amount\<close>
  | JsonNeedsPlatform                    \<comment> \<open>JSON must contain "platform" field\<close>
  | JsonNeedsPayments                    \<comment> \<open>JSON must contain "payments" array\<close>
  | PaymentNeedsReceiver                 \<comment> \<open>Each payment must have "receiver" field\<close>
  | PaymentNeedsAmount                   \<comment> \<open>Each payment must have "amount" field\<close>
  | TypeError                            \<comment> \<open>a property read of null/undefined, or a call of a non-function\<close>

text \<open>
  The suffix literal that the cents branch of both commands tests, as the source files
  store it: the two code units U+00AC U+00A2 (the bytes C2 AC C2 A2), a not sign before
  the cents sign. The branch then removes one unit, \<open>slice(0, -1)\<close>.
\<close>

definition centsSuffix :: jsstring where
  "centsSuffix = [172, 162]"

text \<open>
  \<open>parseAmount\<close> of the send command. \<open>/^\d+$/.test(dollarPart)\<close> holds for a
  non-empty string of decimal digits.
\<close>

definition parseAmount :: "jsstring \<Rightarrow> error + jsnum" where
  "parseAmount amountStr =
     (let trimmed = trim amountStr in
      if endsWith trimmed centsSuffix then
        (let cents = parseFloat (butlast trimmed) in
         if cents = NaN then Inl (InvalidCentsAmount amountStr)
         else Inr (divideBy cents 100))
      else if startsWith trimmed (str ''$'') then
        (let dollarPart = drop 1 trimmed in
         if dollarPart \<noteq> [] \<and> list_all isDigit dollarPart then
           (let dollars = parseIntDigits dollarPart; cents = multiplyBy dollars 100 in
            Inl (ShellVariableAmount dollars cents))
         else
           (let dollars = parseFloat dollarPart in
            if dollars = NaN then Inl (InvalidDollarAmount amountStr)
            else Inr dollars))
      else
        (let amount = parseFloat trimmed in
         if amount = NaN then Inl (InvalidAmount amountStr)
         else Inr amount))"

section \<open>Regular expressions\<close>

text \<open>
  The patterns of the program, as data, and the backtracking matcher of ECMAScript on
  them. A character class is a list of inclusive code-unit ranges. A match state is the
  position reached, the input left and the captures made so far; \<open>matcher\<close> lists the states a pattern
  can reach from a state, in the order in which backtracking tries them, so that the
  head of the list is the match JavaScript reports.
\<close>

type_synonym ranges = "(nat \<times> nat) list"

datatype regex =
    Chars ranges                       \<comment> \<open>a class \<open>[...]\<close>, or one literal character\<close>
  | NotChars ranges                    \<comment> \<open>a complemented class\<close>
  | Seq regex regex
  | Alt regex regex
  | Rep nat "nat option" regex         \<comment> \<open>greedy \<open>{min,max}\<close>; \<open>*\<close>, \<open>+\<close>, \<open>?\<close> are instances\<close>
  | Group nat regex                    \<comment> \<open>capture group number k\<close>
  | InputStart                         \<comment> \<open>\<open>^\<close> (no m flag)\<close>
  | InputEnd                           \<comment> \<open>\<open>$\<close> (no m flag)\<close>
  | Empty

type_synonym captures = "(nat \<times> nat \<times> nat) list"

text \<open>Position, the input from that position on, and the captures \<open>(group, start, end)\<close>.\<close>

type_synonym mstate = "nat \<times> jsstring \<times> captures"

definition inRanges :: "ranges \<Rightarrow> nat \<Rightarrow> bool" where
  "inRanges rs c \<longleftrightarrow> list_ex (\<lambda>(lo, hi). lo \<le> c \<and> c \<le> hi) rs"

definition upperUnit :: "nat \<Rightarrow> nat" where
  "upperUnit c = (if 97 \<le> c \<and> c \<le> 122 then c - 32 else c)"

text \<open>
  Membership in a class, under the \<open>i\<close> flag when \<open>ic\<close> holds. Without the \<open>u\<close>
  flag case folding never maps a code unit outside ASCII to one inside, and every
  class of the program is ASCII, so folding the ASCII letters is all of it.
\<close>

definition inClass :: "bool \<Rightarrow> ranges \<Rightarrow> nat \<Rightarrow> bool" where
  "inClass ic rs c \<longleftrightarrow>
     inRanges rs c \<or> (ic \<and> (inRanges rs (lowerUnit c) \<or> inRanges rs (upperUnit c)))"

fun step :: "(nat \<Rightarrow> bool) \<Rightarrow> mstate \<Rightarrow> mstate list" where
  "step P (pos, [], caps) = []"
| "step P (pos, c # rest, caps) = (if P c then [(Suc pos, rest, caps)] else [])"

fun closeGroup :: "nat \<Rightarrow> nat \<Rightarrow> mstate \<Rightarrow> mstate" where
  "closeGroup k start (pos, rest, caps) = (pos, rest, (k, start, pos) # caps)"

text \<open>
  Greedy repetition of \<open>f\<close>: one more round first, stopping as the last resort. Once
  the minimum is met a round that consumes nothing is rejected (ECMAScript's empty
  check), so \<open>min + remaining length\<close> rounds of fuel are never exhausted early.
  Captures made inside a repeated group are not cleared between rounds; the program
  reads no such capture.
\<close>

definition guarded :: "nat \<Rightarrow> nat \<Rightarrow> (mstate \<Rightarrow> mstate list) \<Rightarrow> mstate \<Rightarrow> mstate list" where
  "guarded pos mn continue s' = (if mn = 0 \<and> fst s' \<le> pos then [] else continue s')"

primrec repeat ::
  "nat \<Rightarrow> (mstate \<Rightarrow> mstate list) \<Rightarrow> nat \<Rightarrow> nat option \<Rightarrow> mstate \<Rightarrow> mstate list" where
  "repeat 0 f mn mx s = (if mn = 0 then [s] else [])"
| "repeat (Suc fuel) f mn mx s =
     (if mx = Some 0 then [s]
      else
        concat (map (guarded (fst s) mn (repeat fuel f (mn - 1) (map_option (\<lambda>m. m - 1) mx)))
                    (f s))
        @ (if mn = 0 then [s] else []))"

primrec matcher :: "regex \<Rightarrow> bool \<Rightarrow> mstate \<Rightarrow> mstate list" where
  "matcher (Chars rs) ic s = step (inClass ic rs) s"
| "matcher (NotChars rs) ic s = step (\<lambda>c. \<not> inClass ic rs c) s"
| "matcher (Seq a b) ic s = concat (map (matcher b ic) (matcher a ic s))"
| "matcher (Alt a b) ic s = matcher a ic s @ matcher b ic s"
| "matcher (Rep mn mx r) ic s = repeat (length (fst (snd s)) + mn) (matcher r ic) mn mx s"
| "matcher (Group k r) ic s = map (closeGroup k (fst s)) (matcher r ic s)"
| "matcher InputStart ic s = (if fst s = 0 then [s] else [])"
| "matcher InputEnd ic s = (if fst (snd s) = [] then [s] else [])"
| "matcher Empty ic s = [s]"

text \<open>
  A match found by \<open>exec\<close>: where it starts, where it ends, its captures.
  \<open>matchAt\<close> is the first way to match at position \<open>i\<close>, before which the input
  \<open>rest\<close> remains; \<open>searchFrom\<close> tries the positions from left to right, the end of
  the input included.
\<close>

type_synonym found = "nat \<times> nat \<times> captures"

definition matchAt :: "regex \<Rightarrow> bool \<Rightarrow> nat \<Rightarrow> jsstring \<Rightarrow> found option" where
  "matchAt r ic i rest =
     (case matcher r ic (i, rest, []) of
        [] \<Rightarrow> None
      | m # _ \<Rightarrow> Some (i, fst m, snd (snd m)))"

fun searchFrom :: "regex \<Rightarrow> bool \<Rightarrow> nat \<Rightarrow> jsstring \<Rightarrow> found option" where
  "searchFrom r ic i [] = matchAt r ic i []"
| "searchFrom r ic i (c # rest) =
     (case matchAt r ic i (c # rest) of
        Some m \<Rightarrow> Some m
      | None \<Rightarrow> searchFrom r ic (Suc i) rest)"

text \<open>\<open>RegExp.prototype.exec\<close> from \<open>lastIndex\<close>.\<close>

definition regexExec :: "regex \<Rightarrow> bool \<Rightarrow> jsstring \<Rightarrow> nat \<Rightarrow> found option" where
  "regexExec r ic inp lastIndex =
     (if lastIndex \<le> length inp then searchFrom r ic lastIndex (drop lastIndex inp) else None)"

definition regexTest :: "regex \<Rightarrow> bool \<Rightarrow> jsstring \<Rightarrow> bool" where
  "regexTest r ic inp \<longleftrightarrow> regexExec r ic inp 0 \<noteq> None"

definition matchStart :: "found \<Rightarrow> nat" where "matchStart m = fst m"
definition matchEnd :: "found \<Rightarrow> nat" where "matchEnd m = fst (snd m)"

text \<open>
  The matched text, \<open>match[0]\<close>, and the text of capture group \<open>k\<close>,
  \<open>match[k]\<close> (every group read by the program takes part in every match of its
  pattern).
\<close>

definition matched :: "jsstring \<Rightarrow> found \<Rightarrow> jsstring" where
  "matched inp m = take (matchEnd m - matchStart m) (drop (matchStart m) inp)"

definition capture :: "jsstring \<Rightarrow> found \<Rightarrow> nat \<Rightarrow> jsstring" where
  "capture inp m k =
     (case map_of (snd (snd m)) k of None \<Rightarrow> [] | Some (a, b) \<Rightarrow> take (b - a) (drop a inp))"

definition seq :: "regex list \<Rightarrow> regex" where
  "seq rs = foldr Seq rs Empty"

fun alts :: "regex list \<Rightarrow> regex" where
  "alts [] = Empty"
| "alts [r] = r"
| "alts (r # rs) = Alt r (alts rs)"

definition lit :: "string \<Rightarrow> regex" where
  "lit s = seq (map (\<lambda>c. Chars [(c, c)]) (str s))"

definition oneOrMore :: "regex \<Rightarrow> regex" where "oneOrMore r = Rep 1 None r"
definition zeroOrMore :: "regex \<Rightarrow> regex" where "zeroOrMore r = Rep 0 None r"
definition optional :: "regex \<Rightarrow> regex" where "optional r = Rep 0 (Some 1) r"

definition digitClass :: ranges where "digitClass = [(48, 57)]"
definition wordClass :: ranges where "wordClass = [(97, 122), (65, 90), (48, 57), (95, 95)]"
definition alnumClass :: ranges where "alnumClass = [(97, 122), (65, 90), (48, 57)]"
definition letterClass :: ranges where "letterClass = [(97, 122), (65, 90)]"
definition spaceClass :: ranges where
  "spaceClass = [(9, 13), (32, 32), (160, 160), (5760, 5760), (8192, 8202), (8232, 8233),
                 (8239, 8239), (8287, 8287), (12288, 12288), (65279, 65279)]"

definition ch :: "char \<Rightarrow> ranges" where
  "ch c = [(of_char c, of_char c)]"

section \<open>Values of type \<open>any\<close>: what \<open>JSON.parse\<close> returns\<close>

datatype json =
    JNull
  | JBool bool
  | JNum jsnum
  | JStr jsstring
  | JArr "json list"
  | JObj "(jsstring \<times> json) list"

text \<open>
  A property read \<open>v.k\<close> for the property names this program reads (none of them
  is a member of a built-in prototype): \<open>None\<close> is \<open>undefined\<close>. An object holds
  its own properties, one entry per key. Reading a property of \<open>null\<close> throws.
\<close>

definition readProp :: "json \<Rightarrow> jsstring \<Rightarrow> json option" where
  "readProp v k = (case v of JObj kvs \<Rightarrow> map_of kvs k | _ \<Rightarrow> None)"

definition getProp :: "json \<Rightarrow> jsstring \<Rightarrow> error + json option" where
  "getProp v k = (if v = JNull then Inl TypeError else Inr (readProp v k))"

text \<open>JavaScript truthiness, as \<open>!v\<close> tests it.\<close>

fun truthy :: "json option \<Rightarrow> bool" where
  "truthy None = False"
| "truthy (Some JNull) = False"
| "truthy (Some (JBool b)) = b"
| "truthy (Some (JNum n)) = (n \<noteq> NaN \<and> n \<noteq> Fin 0)"
| "truthy (Some (JStr s)) = (s \<noteq> [])"
| "truthy (Some (JArr xs)) = True"
| "truthy (Some (JObj kvs)) = True"

fun joinWith :: "jsstring \<Rightarrow> jsstring list \<Rightarrow> jsstring" where
  "joinWith sep [] = []"
| "joinWith sep [x] = x"
| "joinWith sep (x # xs) = x @ sep @ joinWith sep xs"

text \<open>
  \<open>ToString\<close>, which \<open>RegExp.prototype.test\<close> and template literals apply to their
  argument. \<open>nts\<close> is \<open>Number::toString\<close>, a parameter.
\<close>

fun toStringJS :: "(jsnum \<Rightarrow> jsstring) \<Rightarrow> json \<Rightarrow> jsstring" where
  "toStringJS nts JNull = str ''null''"
| "toStringJS nts (JBool b) = (if b then str ''true'' else str ''false'')"
| "toStringJS nts (JNum n) = nts n"
| "toStringJS nts (JStr s) = s"
| "toStringJS nts (JArr xs) =
     joinWith (str '','') (map (\<lambda>x. if x = JNull then [] else toStringJS nts x) xs)"
| "toStringJS nts (JObj kvs) = str ''[object Object]''"

section \<open>Platforms and receivers\<close>

definition xUsernamePattern :: regex where
  \<comment> \<open>\<open>/^[a-zA-Z0-9_]{1,15}$/\<close>\<close>
  "xUsernamePattern = seq [InputStart, Rep 1 (Some 15) (Chars wordClass), InputEnd]"

definition farcasterUsernamePattern :: regex where
  \<comment> \<open>\<open>/^[a-zA-Z0-9][a-zA-Z0-9_-]{0,15}$/\<close>\<close>
  "farcasterUsernamePattern =
     seq [InputStart, Chars alnumClass,
          Rep 0 (Some 15) (Chars (alnumClass @ ch CHR ''_'' @ ch CHR ''-'')), InputEnd]"

definition githubUsernamePattern :: regex where
  \<comment> \<open>\<open>/^[a-zA-Z0-9]([a-zA-Z0-9-]{0,37}[a-zA-Z0-9])?$/\<close>\<close>
  "githubUsernamePattern =
     seq [InputStart, Chars alnumClass,
          optional (Group 1 (seq [Rep 0 (Some 37) (Chars (alnumClass @ ch CHR ''-'')),
                             Chars alnumClass])),
          InputEnd]"

definition doubleHyphenPattern :: regex where
  \<comment> \<open>\<open>/--/\<close>\<close>
  "doubleHyphenPattern = lit ''--''"

definition emailRegex :: regex where
  \<comment> \<open>\<open>/^[a-zA-Z0-9._%+-]+@[a-zA-Z0-9.-]+\.[a-zA-Z]{2,}$/\<close>\<close>
  "emailRegex =
     seq [InputStart,
          oneOrMore (Chars (alnumClass @ ch CHR ''.'' @ ch CHR ''_'' @ ch CHR ''%'' @ ch CHR ''+''
                       @ ch CHR ''-'')),
          Chars (ch CHR ''@''),
          oneOrMore (Chars (alnumClass @ ch CHR ''.'' @ ch CHR ''-'')),
          Chars (ch CHR ''.''),
          Rep 2 None (Chars letterClass),
          InputEnd]"

definition domainRegex :: regex where
  \<comment> \<open>\<open>/^([a-zA-Z0-9]([a-zA-Z0-9-]{0,61}[a-zA-Z0-9])?\.)+[a-zA-Z]{2,}$/\<close>\<close>
  "domainRegex =
     seq [InputStart,
          oneOrMore (Group 1 (seq [Chars alnumClass,
                              optional (Group 2 (seq [Rep 0 (Some 61) (Chars (alnumClass @ ch CHR ''-'')),
                                                 Chars alnumClass])),
                              Chars (ch CHR ''.'')])),
          Rep 2 None (Chars letterClass),
          InputEnd]"

definition validateXUsername :: "jsstring \<Rightarrow> error + unit" where
  "validateXUsername username =
     (if \<not> regexTest xUsernamePattern False username then Inl (InvalidXUsername username)
      else Inr ())"

definition validateFarcasterUsername :: "jsstring \<Rightarrow> error + unit" where
  "validateFarcasterUsername username =
     (if \<not> regexTest farcasterUsernamePattern False username
      then Inl (InvalidFarcasterUsername username)
      else Inr ())"

definition validateGitHubUsername :: "jsstring \<Rightarrow> error + unit" where
  "validateGitHubUsername username =
     (if \<not> regexTest githubUsernamePattern False username
         \<or> regexTest doubleHyphenPattern False username
      then Inl (InvalidGitHubUsername username)
      else Inr ())"

definition validateEmail :: "jsstring \<Rightarrow> error + unit" where
  "validateEmail email =
     (if \<not> regexTest emailRegex False email then Inl (InvalidEmailAddress email) else Inr ())"

definition validateWebDomain :: "jsstring \<Rightarrow> error + unit" where
  "validateWebDomain domain =
     (if \<not> regexTest domainRegex False domain then Inl (InvalidWebDomain domain) else Inr ())"

text \<open>
  \<open>validateReceiver\<close> of the batch command: a \<open>switch\<close> with five cases and no
  default. The send command has the same \<open>switch\<close> inline in \<open>parsePaymentTarget\<close>.
\<close>

definition validateReceiver :: "jsstring \<Rightarrow> jsstring \<Rightarrow> error + unit" where
  "validateReceiver platf receiver =
     (if platf = str ''x'' then validateXUsername receiver
      else if platf = str ''farcaster'' then validateFarcasterUsername receiver
      else if platf = str ''github'' then validateGitHubUsername receiver
      else if platf = str ''email'' then validateEmail receiver
      else if platf = str ''web'' then validateWebDomain receiver
      else Inr ())"

definition platformMap :: "(jsstring \<times> jsstring) list" where
  "platformMap =
     [(str ''x'', str ''x''),
      (str ''x.com'', str ''x''),
      (str ''twitter'', str ''x''),
      (str ''twitter.com'', str ''x''),
      (str ''farcaster'', str ''farcaster''),
      (str ''farcaster.xyz'', str ''farcaster''),
      (str ''github'', str ''github''),
      (str ''github.com'', str ''github''),
      (str ''email'', str ''email''),
      (str ''web'', str ''web'')]"

text \<open>
  \<open>platformMap[lower]\<close> is a property read of an object literal, so besides the ten
  own keys it finds what the literal inherits from \<open>Object.prototype\<close>. The inherited
  members are functions (or, for \<open>__proto__\<close>, the prototype object): truthy, and returned
  by \<open>normalizePlatform\<close> as they are. Only the all-lower-case names can equal \<open>lower\<close>.
\<close>

datatype platform_value =
    Canonical jsstring       \<comment> \<open>a string of the map\<close>
  | Inherited jsstring       \<comment> \<open>the member of \<open>Object.prototype\<close> of that name\<close>

definition inheritedKeys :: "jsstring list" where
  "inheritedKeys = [str ''constructor'', str ''__proto__'']"

definition normalizePlatform :: "jsstring \<Rightarrow> error + platform_value" where
  "normalizePlatform platf =
     (let lower = toLowerCase platf in
      case map_of platformMap lower of
        Some normalized \<Rightarrow> Inr (Canonical normalized)
      | None \<Rightarrow>
          if lower \<in> set inheritedKeys then Inr (Inherited lower)
          else Inl (UnknownPlatform platf))"

text \<open>The \<open>switch\<close> on a value that may not be a string: only a string equals a case label.\<close>

fun validateFor :: "platform_value \<Rightarrow> jsstring \<Rightarrow> error + unit" where
  "validateFor (Canonical p) receiver = validateReceiver p receiver"
| "validateFor (Inherited k) receiver = Inr ()"

fun splitOn :: "nat \<Rightarrow> jsstring \<Rightarrow> jsstring list" where
  "splitOn c [] = [[]]"
| "splitOn c (x # xs) =
     (if x = c then [] # splitOn c xs
      else (case splitOn c xs of [] \<Rightarrow> [[x]] | p # ps \<Rightarrow> (x # p) # ps))"

fun indexOf :: "jsstring \<Rightarrow> nat \<Rightarrow> nat option" where
  "indexOf [] c = None"
| "indexOf (x # xs) c = (if x = c then Some 0 else map_option Suc (indexOf xs c))"

definition lastIndexOf :: "jsstring \<Rightarrow> nat \<Rightarrow> nat option" where
  "lastIndexOf s c = map_option (\<lambda>j. length s - 1 - j) (indexOf (rev s) c)"

text \<open>\<open>parsePaymentTarget\<close> of the send command.\<close>

definition parsePaymentTarget :: "jsstring \<Rightarrow> error + platform_value \<times> jsstring" where
  "parsePaymentTarget target =
     (case splitOn 47 target of
        [platf, receiver] \<Rightarrow>
          (case normalizePlatform platf of
             Inl e \<Rightarrow> Inl e
           | Inr identity \<Rightarrow>
               (case validateFor identity receiver of
                  Inl e \<Rightarrow> Inl e
                | Inr _ \<Rightarrow> Inr (identity, receiver)))
      | _ \<Rightarrow> Inl (InvalidTargetFormat target))"

section \<open>Batch descriptors (the batch command)\<close>

text \<open>
  \<open>parseAmount\<close> of the batch command: a number passes through, a string is parsed
  without the shell-variable check, anything else has no \<open>trim\<close> method.
\<close>

definition parseAmountString :: "jsstring \<Rightarrow> error + jsnum" where
  "parseAmountString amountStr =
     (let trimmed = trim amountStr in
      if endsWith trimmed centsSuffix then
        (let cents = parseFloat (butlast trimmed) in
         if cents = NaN then Inl (InvalidCentsAmount amountStr)
         else Inr (divideBy cents 100))
      else if startsWith trimmed (str ''$'') then
        (let dollars = parseFloat (drop 1 trimmed) in
         if dollars = NaN then Inl (InvalidDollarAmount amountStr)
         else Inr dollars)
      else
        (let amount = parseFloat trimmed in
         if amount = NaN then Inl (InvalidAmount amountStr)
         else Inr amount))"

fun batchParseAmount :: "json \<Rightarrow> error + jsnum" where
  "batchParseAmount (JNum n) = Inr n"
| "batchParseAmount (JStr amountStr) = parseAmountString amountStr"
| "batchParseAmount _ = Inl TypeError"

record batch =
  batchPlatform :: platform_value
  batchPayments :: "(json \<times> jsnum) list"

text \<open>The body of the loop over the \<open>receiver:amount\<close> pairs; the first throw ends it.\<close>

fun commaPairs :: "platform_value \<Rightarrow> jsstring list \<Rightarrow> error + (json \<times> jsnum) list" where
  "commaPairs platf [] = Inr []"
| "commaPairs platf (pair # pairs) =
     (case lastIndexOf pair 58 of
        None \<Rightarrow> Inl (MissingAmountFor pair)
      | Some colonIndex \<Rightarrow>
          (let receiver = take colonIndex pair; amountStr = drop (colonIndex + 1) pair in
           case validateFor platf receiver of
             Inl e \<Rightarrow> Inl e
           | Inr _ \<Rightarrow>
               (case parseAmountString amountStr of
                  Inl e \<Rightarrow> Inl e
                | Inr amount \<Rightarrow>
                    (case commaPairs platf pairs of
                       Inl e \<Rightarrow> Inl e
                     | Inr rest \<Rightarrow> Inr ((JStr receiver, amount) # rest)))))"

definition parseCommaSeparated :: "jsstring \<Rightarrow> error + batch" where
  "parseCommaSeparated input =
     (case indexOf input 47 of
        None \<Rightarrow> Inl (InvalidBatchFormat input)
      | Some firstSlash \<Rightarrow>
          (let platformStr = take firstSlash input;
               receiversStr = drop (firstSlash + 1) input in
           case normalizePlatform platformStr of
             Inl e \<Rightarrow> Inl e
           | Inr platf \<Rightarrow>
               (case commaPairs platf (splitOn 44 receiversStr) of
                  Inl e \<Rightarrow> Inl e
                | Inr payments \<Rightarrow>
                    Inr \<lparr>batchPlatform = platf, batchPayments = payments\<rparr>)))"

fun jsonPayments ::
  "(jsnum \<Rightarrow> jsstring) \<Rightarrow> platform_value \<Rightarrow> json list \<Rightarrow> error + (json \<times> jsnum) list" where
  "jsonPayments nts platf [] = Inr []"
| "jsonPayments nts platf (payment # rest) =
     (case getProp payment (str ''receiver'') of
        Inl e \<Rightarrow> Inl e
      | Inr receiver \<Rightarrow>
          if \<not> truthy receiver then Inl PaymentNeedsReceiver
          else
            (case getProp payment (str ''amount'') of
               Inl e \<Rightarrow> Inl e
             | Inr None \<Rightarrow> Inl PaymentNeedsAmount
             | Inr (Some amountField) \<Rightarrow>
                 (case validateFor platf (toStringJS nts (the receiver)) of
                    Inl e \<Rightarrow> Inl e
                  | Inr _ \<Rightarrow>
                      (case batchParseAmount amountField of
                         Inl e \<Rightarrow> Inl e
                       | Inr amount \<Rightarrow>
                           (case jsonPayments nts platf rest of
                              Inl e \<Rightarrow> Inl e
                            | Inr others \<Rightarrow> Inr ((the receiver, amount) # others))))))"

definition parseJSONPayments :: "(jsnum \<Rightarrow> jsstring) \<Rightarrow> json \<Rightarrow> error + batch" where
  "parseJSONPayments nts data =
     (case getProp data (str ''platform'') of
        Inl e \<Rightarrow> Inl e
      | Inr platformField \<Rightarrow>
          if \<not> truthy platformField then Inl JsonNeedsPlatform
          else
            (case getProp data (str ''payments'') of
               Inr (Some (JArr items)) \<Rightarrow>
                 (case platformField of
                    Some (JStr p) \<Rightarrow>
                      (case normalizePlatform p of
                         Inl e \<Rightarrow> Inl e
                       | Inr platf \<Rightarrow>
                           (case jsonPayments nts platf items of
                              Inl e \<Rightarrow> Inl e
                            | Inr payments \<Rightarrow>
                                Inr \<lparr>batchPlatform = platf, batchPayments = payments\<rparr>))
                  | _ \<Rightarrow> Inl TypeError)
             | _ \<Rightarrow> Inl JsonNeedsPayments))"

section \<open>Natural-language extraction (the agent command)\<close>

record PaymentInstruction =
  instReceiver :: jsstring
  instAmount :: jsnum
  instPlatform :: jsstring

definition platformNames :: regex where
  \<comment> \<open>\<open>(x|farcaster|web|email|github)\<close>, without its parentheses\<close>
  "platformNames = alts [lit ''x'', lit ''farcaster'', lit ''web'', lit ''email'', lit ''github'']"

definition amountDigits :: regex where
  \<comment> \<open>\<open>\d+\.?\d*\<close>\<close>
  "amountDigits = seq [oneOrMore (Chars digitClass), optional (Chars (ch CHR ''.'')), zeroOrMore (Chars digitClass)]"

definition spaces :: regex where
  \<comment> \<open>\<open>\s+\<close>\<close>
  "spaces = oneOrMore (Chars spaceClass)"

definition sendPattern :: regex where
  \<comment> \<open>\<open>/send\s+(\d+\.?\d*)\s+usdc\s+to\s+@?(\w+)\s+on\s+(x|farcaster|web|email|github)/gi\<close>\<close>
  "sendPattern =
     seq [lit ''send'', spaces, Group 1 amountDigits, spaces, lit ''usdc'', spaces, lit ''to'',
          spaces, optional (Chars (ch CHR ''@'')), Group 2 (oneOrMore (Chars wordClass)), spaces,
          lit ''on'', spaces, Group 3 platformNames]"

definition payPattern :: regex where
  \<comment> \<open>\<open>/pay\s+@?(\w+)\s+(\d+\.?\d*)\s+usdc\s+on\s+(x|farcaster|web|email|github)/gi\<close>\<close>
  "payPattern =
     seq [lit ''pay'', spaces, optional (Chars (ch CHR ''@'')), Group 1 (oneOrMore (Chars wordClass)),
          spaces, Group 2 amountDigits, spaces, lit ''usdc'', spaces, lit ''on'', spaces,
          Group 3 platformNames]"

definition userOnPattern :: regex where
  \<comment> \<open>\<open>/@?(\w+)\s+on\s+(x|farcaster|web|email|github)\s+(\d+\.?\d*)\s+usdc/gi\<close>\<close>
  "userOnPattern =
     seq [optional (Chars (ch CHR ''@'')), Group 1 (oneOrMore (Chars wordClass)), spaces, lit ''on'',
          spaces, Group 2 platformNames, spaces, Group 3 amountDigits, spaces, lit ''usdc'']"

text \<open>
  The loop \<open>while ((match = pattern.exec(prompt)) !== null)\<close> of a pattern with the
  \<open>g\<close> flag: each round searches from \<open>lastIndex\<close>, the end of the previous match. A
  match that ends where the search began leaves \<open>lastIndex\<close> in place and the loop never
  ends: that is the value \<open>None\<close>.
\<close>

function execAll :: "regex \<Rightarrow> bool \<Rightarrow> jsstring \<Rightarrow> nat \<Rightarrow> found list option" where
  "execAll r ic inp lastIndex =
     (case regexExec r ic inp lastIndex of
        None \<Rightarrow> Some []
      | Some m \<Rightarrow>
          if matchEnd m \<le> lastIndex then None
          else map_option ((#) m) (execAll r ic inp (matchEnd m)))"
  by pat_completeness auto
termination
proof (relation "measure (\<lambda>(r, ic, inp, lastIndex). Suc (length inp) - lastIndex)")
  show "wf (measure (\<lambda>(r, ic, inp, lastIndex). Suc (length inp) - lastIndex))"
    by simp
next
  fix r :: regex and ic :: bool and inp :: jsstring and lastIndex :: nat and m :: found
  assume ex: "regexExec r ic inp lastIndex = Some m" and prog: "\<not> matchEnd m \<le> lastIndex"
  from ex have "lastIndex \<le> length inp"
    by (auto simp: regexExec_def split: if_splits)
  with prog show "((r, ic, inp, matchEnd m), (r, ic, inp, lastIndex))
      \<in> measure (\<lambda>(r, ic, inp, lastIndex). Suc (length inp) - lastIndex)"
    by simp
qed

declare execAll.simps [simp del]

text \<open>
  The three branches of \<open>fallbackParser\<close>, chosen by \<open>pattern.source.includes\<close>: the
  source of the first pattern contains \<open>send\<close>; that of the second contains \<open>pay\<close> and
  not \<open>send\<close>; that of the third contains neither.
\<close>

datatype template = SendTo | PayUser | UserOn

definition patterns :: "(template \<times> regex) list" where
  "patterns = [(SendTo, sendPattern), (PayUser, payPattern), (UserOn, userOnPattern)]"

fun instructionOf :: "template \<Rightarrow> jsstring \<Rightarrow> found \<Rightarrow> PaymentInstruction" where
  "instructionOf SendTo prompt m =
     \<lparr>instReceiver = capture prompt m 2,
      instAmount = parseFloat (capture prompt m 1),
      instPlatform = toLowerCase (capture prompt m 3)\<rparr>"
| "instructionOf PayUser prompt m =
     \<lparr>instReceiver = capture prompt m 1,
      instAmount = parseFloat (capture prompt m 2),
      instPlatform = toLowerCase (capture prompt m 3)\<rparr>"
| "instructionOf UserOn prompt m =
     \<lparr>instReceiver = capture prompt m 1,
      instAmount = parseFloat (capture prompt m 3),
      instPlatform = toLowerCase (capture prompt m 2)\<rparr>"

definition matchesOf :: "jsstring \<Rightarrow> template \<times> regex \<Rightarrow> PaymentInstruction list option" where
  "matchesOf prompt p =
     map_option (map (instructionOf (fst p) prompt)) (execAll (snd p) True prompt 0)"

definition fallbackParser :: "jsstring \<Rightarrow> PaymentInstruction list option" where
  "fallbackParser prompt = map_option concat (those (map (matchesOf prompt) patterns))"

definition jsonArrayPattern :: regex where
  \<comment> \<open>\<open>/\[[\s\S]*\]/\<close>\<close>
  "jsonArrayPattern =
     seq [Chars (ch CHR ''[''), zeroOrMore (Alt (Chars spaceClass) (NotChars spaceClass)),
          Chars (ch CHR '']'')]"

text \<open>
  What the extractor returns: the instructions the templates found, or the array the
  model wrote, as parsed and otherwise unchecked. It may also throw.
\<close>

datatype extraction =
    Matched "PaymentInstruction list"
  | ModelArray "json list"

datatype agent_error =
    JsonSyntaxError          \<comment> \<open>\<open>JSON.parse\<close> threw\<close>
  | InstructionTypeError     \<comment> \<open>the display line read a property of \<open>null\<close>\<close>
  | ApiError                 \<comment> \<open>the request to the model, or the reading of its reply, threw\<close>

text \<open>
  \<open>parseAIResponse\<close>. \<open>jsonParse\<close> is \<open>JSON.parse\<close> (\<open>None\<close> when it throws). The
  matched text starts with a bracket, so what parses is an array.
\<close>

definition parseAIResponse ::
  "(jsstring \<Rightarrow> json option) \<Rightarrow> jsstring \<Rightarrow> (agent_error + extraction) option" where
  "parseAIResponse jsonParse content =
     (case regexExec jsonArrayPattern False content 0 of
        None \<Rightarrow> map_option (\<lambda>is. Inr (Matched is)) (fallbackParser content)
      | Some jsonMatch \<Rightarrow>
          Some (case jsonParse (matched content jsonMatch) of
                  None \<Rightarrow> Inl JsonSyntaxError
                | Some (JArr instructions) \<Rightarrow>
                    if JNull \<in> set instructions then Inl InstructionTypeError
                    else Inr (ModelArray instructions)
                | Some _ \<Rightarrow> Inl InstructionTypeError))"

text \<open>
  The environment of the agent: the two API keys, the text each provider answers to a
  prompt (\<open>None\<close> when the request throws), and \<open>JSON.parse\<close>.
\<close>

record agent_env =
  openaiApiKey :: "jsstring option"
  anthropicApiKey :: "jsstring option"
  openaiContent :: "jsstring \<Rightarrow> jsstring option"
  claudeContent :: "jsstring \<Rightarrow> jsstring option"
  jsonParse :: "jsstring \<Rightarrow> json option"

definition keySet :: "jsstring option \<Rightarrow> bool" where
  "keySet k \<longleftrightarrow> (case k of None \<Rightarrow> False | Some s \<Rightarrow> s \<noteq> [])"

definition parseWithOpenAI :: "agent_env \<Rightarrow> jsstring \<Rightarrow> (agent_error + extraction) option" where
  "parseWithOpenAI env prompt =
     (case openaiContent env prompt of
        None \<Rightarrow> Some (Inl ApiError)
      | Some content \<Rightarrow> parseAIResponse (jsonParse env) content)"

definition parseWithClaude :: "agent_env \<Rightarrow> jsstring \<Rightarrow> (agent_error + extraction) option" where
  "parseWithClaude env prompt =
     (case claudeContent env prompt of
        None \<Rightarrow> Some (Inl ApiError)
      | Some content \<Rightarrow> parseAIResponse (jsonParse env) content)"

definition parsePaymentRequest ::
  "agent_env \<Rightarrow> jsstring \<Rightarrow> (agent_error + extraction) option" where
  "parsePaymentRequest env prompt =
     (if keySet (openaiApiKey env) then parseWithOpenAI env prompt
      else if keySet (anthropicApiKey env) then parseWithClaude env prompt
      else map_option (\<lambda>is. Inr (Matched is)) (fallbackParser prompt))"

section \<open>Campaign descriptors (the campaign command)\<close>

text \<open>One constructor for each message \<open>validateCampaignData\<close> pushes onto \<open>errors\<close>.\<close>

datatype violation =
    PlatformRequired | PlatformInvalid json
  | NameRequired | NameNotString | NameTooShort | NameTooLong
  | DescriptionRequired | DescriptionNotString | DescriptionTooShort | DescriptionTooLong
  | TotalCookiesRequired | TotalCookiesNotNumber | TotalCookiesNotInteger
  | TotalCookiesTooFew | TotalCookiesTooMany
  | SponsorRequired
  | SponsorNameRequired | SponsorNameNotString | SponsorNameTooShort | SponsorNameTooLong
  | SponsorHandleRequired | SponsorHandleNotString | SponsorHandleTooShort
  | SponsorHandleTooLong
  | SponsorUrlNotString | SponsorUrlInvalid jsstring

datatype campaign_error =
    ValidationFailed "violation list"   \<comment> \<open>Validation failed: followed by one line per error\<close>
  | NullData                            \<comment> \<open>TypeError: cannot read properties of null\<close>

text \<open>
  The chain \<open>!v\<close>, \<open>typeof v !== "string"\<close>, \<open>v.length < lo\<close>, \<open>v.length > hi\<close> that
  validates the name, the description, the sponsor's name and the sponsor's handle.
\<close>

definition stringErrors ::
  "json option \<Rightarrow> nat \<Rightarrow> nat \<Rightarrow> violation \<Rightarrow> violation \<Rightarrow> violation \<Rightarrow> violation
     \<Rightarrow> violation list" where
  "stringErrors v lo hi required notString tooShort tooLong =
     (if \<not> truthy v then [required]
      else case v of
        Some (JStr s) \<Rightarrow>
          if length s < lo then [tooShort]
          else if length s > hi then [tooLong]
          else []
      | _ \<Rightarrow> [notString])"

definition platformErrors :: "json \<Rightarrow> violation list" where
  "platformErrors data =
     (let p = readProp data (str ''platform'') in
      if \<not> truthy p then [PlatformRequired]
      else if the p \<notin> set [JStr (str ''x''), JStr (str ''farcaster'')]
        then [PlatformInvalid (the p)]
      else [])"

definition nameErrors :: "json \<Rightarrow> violation list" where
  "nameErrors data =
     stringErrors (readProp data (str ''name'')) 3 100
       NameRequired NameNotString NameTooShort NameTooLong"

definition descriptionErrors :: "json \<Rightarrow> violation list" where
  "descriptionErrors data =
     stringErrors (readProp data (str ''description'')) 10 500
       DescriptionRequired DescriptionNotString DescriptionTooShort DescriptionTooLong"

definition isInteger :: "jsnum \<Rightarrow> bool" where
  "isInteger n \<longleftrightarrow> (case n of Fin q \<Rightarrow> of_int \<lfloor>q\<rfloor> = q | _ \<Rightarrow> False)"

definition totalCookiesErrors :: "json \<Rightarrow> violation list" where
  "totalCookiesErrors data =
     (case readProp data (str ''totalCookies'') of
        None \<Rightarrow> [TotalCookiesRequired]
      | Some JNull \<Rightarrow> [TotalCookiesRequired]
      | Some (JNum n) \<Rightarrow>
          if \<not> isInteger n then [TotalCookiesNotInteger]
          else (case n of
                  Fin q \<Rightarrow>
                    if q < 3 then [TotalCookiesTooFew]
                    else if q > 10 then [TotalCookiesTooMany]
                    else []
                | _ \<Rightarrow> [])
      | Some _ \<Rightarrow> [TotalCookiesNotNumber])"

definition sponsorUrlErrors :: "(jsstring \<Rightarrow> bool) \<Rightarrow> json \<Rightarrow> violation list" where
  "sponsorUrlErrors validURL sponsor =
     (case readProp sponsor (str ''url'') of
        None \<Rightarrow> []
      | Some JNull \<Rightarrow> []
      | Some (JStr u) \<Rightarrow> if validURL u then [] else [SponsorUrlInvalid u]
      | Some _ \<Rightarrow> [SponsorUrlNotString])"

definition sponsorErrors :: "(jsstring \<Rightarrow> bool) \<Rightarrow> json \<Rightarrow> violation list" where
  "sponsorErrors validURL data =
     (let sponsor = readProp data (str ''sponsor'') in
      if \<not> truthy sponsor then [SponsorRequired]
      else
        stringErrors (readProp (the sponsor) (str ''name'')) 1 100
          SponsorNameRequired SponsorNameNotString SponsorNameTooShort SponsorNameTooLong
        @ stringErrors (readProp (the sponsor) (str ''handle'')) 1 50
            SponsorHandleRequired SponsorHandleNotString SponsorHandleTooShort
            SponsorHandleTooLong
        @ sponsorUrlErrors validURL (the sponsor))"

text \<open>
  \<open>validateCampaignData\<close>. \<open>validURL u\<close> says that \<open>new URL(u)\<close> does not throw (the
  WHATWG URL parser, a parameter). The blocks run in the order of the source, each
  appending to \<open>errors\<close>.
\<close>

definition validateCampaignData ::
  "(jsstring \<Rightarrow> bool) \<Rightarrow> json \<Rightarrow> campaign_error + json" where
  "validateCampaignData validURL data =
     (if data = JNull then Inl NullData
      else
        let errors = platformErrors data @ nameErrors data @ descriptionErrors data
                     @ totalCookiesErrors data @ sponsorErrors validURL data
        in if length errors > 0 then Inl (ValidationFailed errors) else Inr data)"

text \<open>
  The CampaignDescriptor of the specification, in its words: platform one of \<open>x\<close>,
  \<open>farcaster\<close>; name of 3 to 100 characters; description of 10 to 500; totalCookies an
  integer in [3,10]; sponsor with a name of 1 to 100 characters, a handle of 1 to 50 and
  an optional well-formed URL. Characters are counted as \<open>length\<close> counts them.
\<close>

definition lengthWithin :: "nat \<Rightarrow> nat \<Rightarrow> json option \<Rightarrow> bool" where
  "lengthWithin lo hi v \<longleftrightarrow>
     (case v of Some (JStr s) \<Rightarrow> lo \<le> length s \<and> length s \<le> hi | _ \<Rightarrow> False)"

definition specPlatform :: "json \<Rightarrow> bool" where
  "specPlatform data \<longleftrightarrow>
     readProp data (str ''platform'') = Some (JStr (str ''x''))
     \<or> readProp data (str ''platform'') = Some (JStr (str ''farcaster''))"

definition specTotalCookies :: "json \<Rightarrow> bool" where
  "specTotalCookies data \<longleftrightarrow>
     (case readProp data (str ''totalCookies'') of
        Some (JNum (Fin q)) \<Rightarrow> q \<in> \<int> \<and> 3 \<le> q \<and> q \<le> 10
      | _ \<Rightarrow> False)"

definition specSponsorUrl :: "(jsstring \<Rightarrow> bool) \<Rightarrow> json \<Rightarrow> bool" where
  "specSponsorUrl validURL sponsor \<longleftrightarrow>
     (case readProp sponsor (str ''url'') of
        None \<Rightarrow> True
      | Some JNull \<Rightarrow> True
      | Some (JStr u) \<Rightarrow> validURL u
      | Some _ \<Rightarrow> False)"

definition specSponsor :: "(jsstring \<Rightarrow> bool) \<Rightarrow> json \<Rightarrow> bool" where
  "specSponsor validURL data \<longleftrightarrow>
     (case readProp data (str ''sponsor'') of
        None \<Rightarrow> False
      | Some sponsor \<Rightarrow>
          lengthWithin 1 100 (readProp sponsor (str ''name''))
          \<and> lengthWithin 1 50 (readProp sponsor (str ''handle''))
          \<and> specSponsorUrl validURL sponsor)"

definition specCampaignDescriptor :: "(jsstring \<Rightarrow> bool) \<Rightarrow> json \<Rightarrow> bool" where
  "specCampaignDescriptor validURL data \<longleftrightarrow>
     specPlatform data
     \<and> lengthWithin 3 100 (readProp data (str ''name''))
     \<and> lengthWithin 10 500 (readProp data (str ''description''))
     \<and> specTotalCookies data
     \<and> specSponsor validURL data"

text \<open>The field a reported violation is about.\<close>

datatype campaign_field =
    FPlatform | FName | FDescription | FTotalCookies
  | FSponsor | FSponsorName | FSponsorHandle | FSponsorUrl

fun violationField :: "violation \<Rightarrow> campaign_field" where
  "violationField PlatformRequired = FPlatform"
| "violationField (PlatformInvalid v) = FPlatform"
| "violationField NameRequired = FName"
| "violationField NameNotString = FName"
| "violationField NameTooShort = FName"
| "violationField NameTooLong = FName"
| "violationField DescriptionRequired = FDescription"
| "violationField DescriptionNotString = FDescription"
| "violationField DescriptionTooShort = FDescription"
| "violationField DescriptionTooLong = FDescription"
| "violationField TotalCookiesRequired = FTotalCookies"
| "violationField TotalCookiesNotNumber = FTotalCookies"
| "violationField TotalCookiesNotInteger = FTotalCookies"
| "violationField TotalCookiesTooFew = FTotalCookies"
| "violationField TotalCookiesTooMany = FTotalCookies"
| "violationField SponsorRequired = FSponsor"
| "violationField SponsorNameRequired = FSponsorName"
| "violationField SponsorNameNotString = FSponsorName"
| "violationField SponsorNameTooShort = FSponsorName"
| "violationField SponsorNameTooLong = FSponsorName"
| "violationField SponsorHandleRequired = FSponsorHandle"
| "violationField SponsorHandleNotString = FSponsorHandle"
| "violationField SponsorHandleTooShort = FSponsorHandle"
| "violationField SponsorHandleTooLong = FSponsorHandle"
| "violationField SponsorUrlNotString = FSponsorUrl"
| "violationField (SponsorUrlInvalid u) = FSponsorUrl"

definition reportedFields :: "violation list \<Rightarrow> campaign_field set" where
  "reportedFields vs = violationField ` set vs"

section \<open>Network selection (pay.ts, the send and batch commands, the agent, the campaign command)\<close>

text \<open>
  \<open>args.network\<close> is what minimist stored for \<open>--network\<close>: nothing, a string, a
  number (minimist converts numeric-looking values), \<open>true\<close> for a flag without a value,
  or an array when the flag is repeated.
\<close>

datatype argv_value =
    ArgString jsstring
  | ArgNumber jsnum
  | ArgBool bool
  | ArgArray "argv_value list"

datatype network = Base | Solana

datatype network_error =
    InvalidNetwork          \<comment> \<open>network must be either 'base' or 'solana'\<close>
  | MissingSvmKey           \<comment> \<open>Missing SVM_PRIVATE_KEY ... (needed for --network solana)\<close>
  | MissingEvmKey           \<comment> \<open>Missing EVM_PRIVATE_KEY ... (needed for --network base)\<close>
  | BothKeysSet             \<comment> \<open>Both EVM_PRIVATE_KEY and SVM_PRIVATE_KEY ... are set\<close>
  | NoPrivateKeys           \<comment> \<open>No private keys found in environment variables\<close>
  | NotAFunction            \<comment> \<open>TypeError: args.network.toLowerCase is not a function\<close>

text \<open>The condition \<open>if (args.network)\<close>: JavaScript truthiness of the stored value.\<close>

fun truthyArg :: "argv_value option \<Rightarrow> bool" where
  "truthyArg None = False"
| "truthyArg (Some (ArgString s)) = (s \<noteq> [])"
| "truthyArg (Some (ArgNumber n)) = (n \<noteq> NaN \<and> n \<noteq> Fin 0)"
| "truthyArg (Some (ArgBool b)) = b"
| "truthyArg (Some (ArgArray xs)) = True"

definition allowedNetworks :: "jsstring list" where
  "allowedNetworks = [str ''base'', str ''solana'']"

text \<open>
  The block that sets \<open>useSolana\<close>; each \<open>process.exit(1)\<close> is the error printed just
  before it. \<open>hasEvmKey\<close> and \<open>hasSvmKey\<close> are \<open>!!privateKey\<close> and \<open>!!svmPrivateKey\<close>.
\<close>

definition autoDetect :: "bool \<Rightarrow> bool \<Rightarrow> network_error + network" where
  "autoDetect hasEvmKey hasSvmKey =
     (if hasEvmKey \<and> hasSvmKey then Inl BothKeysSet
      else if hasSvmKey then Inr Solana
      else if hasEvmKey then Inr Base
      else Inl NoPrivateKeys)"

definition explicitNetwork :: "jsstring \<Rightarrow> bool \<Rightarrow> bool \<Rightarrow> network_error + network" where
  "explicitNetwork flag hasEvmKey hasSvmKey =
     (if toLowerCase flag \<notin> set allowedNetworks then Inl InvalidNetwork
      else let useSolana = (toLowerCase flag = str ''solana'') in
        if useSolana \<and> \<not> hasSvmKey then Inl MissingSvmKey
        else if \<not> useSolana \<and> \<not> hasEvmKey then Inl MissingEvmKey
        else Inr (if useSolana then Solana else Base))"

definition resolveNetwork ::
  "argv_value option \<Rightarrow> bool \<Rightarrow> bool \<Rightarrow> network_error + network" where
  "resolveNetwork argsNetwork hasEvmKey hasSvmKey =
     (if truthyArg argsNetwork then
        (case argsNetwork of
           Some (ArgString flag) \<Rightarrow> explicitNetwork flag hasEvmKey hasSvmKey
         | _ \<Rightarrow> Inl NotAFunction)
      else autoDetect hasEvmKey hasSvmKey)"

section \<open>Notions used to state the properties\<close>

text \<open>The decimal digits of a natural number, most significant first.\<close>

fun decimalDigits :: "nat \<Rightarrow> jsstring" where
  "decimalDigits n = (if n < 10 then [48 + n] else decimalDigits (n div 10) @ [48 + n mod 10])"

declare decimalDigits.simps [simp del]

text \<open>
  The cents sign U+00A2 alone, as the README writes amounts (\<open>1\<cent>\<close>, \<open>50\<cent>\<close>) and
  as a shell hands them over.
\<close>

definition centsSymbol :: jsstring where
  "centsSymbol = [162]"

text \<open>
  The part of an amount token that \<open>parseAmount\<close> hands to \<open>parseFloat\<close>: the trimmed
  token without its last unit when it ends with the stored suffix, or without its dollar
  sign, or as it is.
\<close>

definition numericPart :: "jsstring \<Rightarrow> jsstring" where
  "numericPart amountStr =
     (let trimmed = trim amountStr in
      if endsWith trimmed centsSuffix then butlast trimmed
      else if startsWith trimmed (str ''$'') then drop 1 trimmed
      else trimmed)"

text \<open>The numeric part is written with a minus sign.\<close>

definition leadingMinus :: "jsstring \<Rightarrow> bool" where
  "leadingMinus t \<longleftrightarrow> (case trimStart t of [] \<Rightarrow> False | c # r \<Rightarrow> c = 45)"

text \<open>One of the three invalid-amount errors, naming the raw token.\<close>

definition isInvalidAmount :: "jsstring \<Rightarrow> error \<Rightarrow> bool" where
  "isInvalidAmount raw e \<longleftrightarrow>
     e = InvalidCentsAmount raw \<or> e = InvalidDollarAmount raw \<or> e = InvalidAmount raw"

text \<open>The five canonical identities (\<open>allowedIdentities\<close> in the commands).\<close>

definition allowedIdentities :: "jsstring list" where
  "allowedIdentities = [str ''x'', str ''farcaster'', str ''web'', str ''email'', str ''github'']"

text \<open>An error thrown by one of the five receiver validators.\<close>

definition isReceiverError :: "error \<Rightarrow> bool" where
  "isReceiverError e \<longleftrightarrow>
     (case e of
        InvalidXUsername r \<Rightarrow> True
      | InvalidFarcasterUsername r \<Rightarrow> True
      | InvalidGitHubUsername r \<Rightarrow> True
      | InvalidEmailAddress r \<Rightarrow> True
      | InvalidWebDomain r \<Rightarrow> True
      | _ \<Rightarrow> False)"

text \<open>An environment with no API key, and one whose model declines to answer.\<close>

definition noModel :: agent_env where
  "noModel = \<lparr>openaiApiKey = None, anthropicApiKey = None,
              openaiContent = (\<lambda>p. None), claudeContent = (\<lambda>p. None),
              jsonParse = (\<lambda>s. None)\<rparr>"

definition refusingModel :: agent_env where
  "refusingModel = \<lparr>openaiApiKey = Some (str ''sk-test''), anthropicApiKey = None,
              openaiContent = (\<lambda>p. Some (str ''I cannot help with that.'')),
              claudeContent = (\<lambda>p. None),
              jsonParse = (\<lambda>s. None)\<rparr>"

section \<open>Properties of network selection\<close>

text \<open>
  C1 (as the code has it). The decision table holds for a flag that is absent or a
  non-empty string: a non-empty value that is neither \<open>base\<close> nor \<open>solana\<close> in any
  letter case gives the invalid-network error whatever keys are configured; \<open>base\<close>
  needs the EVM key and \<open>solana\<close> the SVM key; with no flag the two booleans decide
  (both: ambiguous, one: that key's network, none: no credential). The guard
  \<open>if (args.network)\<close> sends an empty flag value down the no-flag rows.
\<close>

theorem resolveNetwork_table:
  "(s \<noteq> [] \<and> toLowerCase s \<noteq> str ''base'' \<and> toLowerCase s \<noteq> str ''solana''
      \<longrightarrow> resolveNetwork (Some (ArgString s)) evm svm = Inl InvalidNetwork)
   \<and> (toLowerCase s = str ''base''
      \<longrightarrow> resolveNetwork (Some (ArgString s)) evm svm
            = (if evm then Inr Base else Inl MissingEvmKey))
   \<and> (toLowerCase s = str ''solana''
      \<longrightarrow> resolveNetwork (Some (ArgString s)) evm svm
            = (if svm then Inr Solana else Inl MissingSvmKey))
   \<and> (flag = None \<or> flag = Some (ArgString [])
      \<longrightarrow> resolveNetwork flag evm svm =
            (if evm \<and> svm then Inl BothKeysSet
             else if evm then Inr Base
             else if svm then Inr Solana
             else Inl NoPrivateKeys))"
  by (auto simp: resolveNetwork_def explicitNetwork_def autoDetect_def allowedNetworks_def
        toLowerCase_def str_def)

theorem resolveNetwork_table_witness:
  "resolveNetwork (Some (ArgString (str ''polygon''))) True True = Inl InvalidNetwork
   \<and> resolveNetwork (Some (ArgString (str ''BASE''))) False True = Inl MissingEvmKey
   \<and> resolveNetwork (Some (ArgString (str ''SoLaNa''))) False True = Inr Solana
   \<and> resolveNetwork None True True = Inl BothKeysSet"
  using resolveNetwork_table [of "str ''polygon''" True True None]
    resolveNetwork_table [of "str ''BASE''" False True None]
    resolveNetwork_table [of "str ''SoLaNa''" False True None]
    resolveNetwork_table [of "[]" True True None]
  by (simp add: str_def toLowerCase_def lowerUnit_def)

text \<open>
  C1 as stated fails at the empty flag value (\<open>--network ""\<close> or \<open>--network=\<close>): it
  is a value other than \<open>base\<close> and \<open>solana\<close>, yet with only the EVM key configured
  the run selects Base instead of reporting an invalid network.
\<close>

theorem resolveNetwork_empty_flag_counterexample:
  "resolveNetwork (Some (ArgString [])) True False = Inr Base"
  by (simp add: resolveNetwork_def autoDetect_def)

section \<open>Properties of rounding\<close>

lemma floorLog2_bounds:
  assumes "0 < a"
  shows "2 powi floorLog2 a \<le> a \<and> a < 2 powi (floorLog2 a + 1)"
proof (cases "1 \<le> a")
  case True
  define n where "n = nat \<lfloor>a\<rfloor>"
  have n1: "0 < n" using True by (simp add: n_def)
  define k where "k = floorlog 2 n"
  have b: "2 ^ (k - 1) \<le> n \<and> n < 2 ^ k"
    unfolding k_def using floorlog_bounds [of n 2] n1 by simp
  have kpos: "0 < k" using b n1 by (cases k) auto
  have fl: "floorLog2 a = int k - 1"
    using True by (simp add: floorLog2_def n_def k_def)
  have na: "of_nat n \<le> a" and an: "a < of_nat n + 1"
    using True by (simp_all add: n_def) linarith+
  have lo: "(2::rat) ^ (k - 1) \<le> of_nat n"
    using b by (metis of_nat_le_iff of_nat_numeral of_nat_power)
  have hi: "(of_nat n :: rat) + 1 \<le> 2 ^ k"
  proof -
    have "n + 1 \<le> 2 ^ k" using b by simp
    then have "(of_nat (n + 1) :: rat) \<le> of_nat (2 ^ k)" by (simp only: of_nat_le_iff)
    then show ?thesis by simp
  qed
  have p1: "(2::rat) powi (int k - 1) = 2 ^ (k - 1)"
    using kpos by (simp add: power_int_def nat_diff_distrib')
  have p2: "(2::rat) powi (int k - 1 + 1) = 2 ^ k"
    by (simp add: power_int_def)
  show ?thesis unfolding fl p1 p2 using lo hi na an by linarith
next
  case False
  then have a1: "a < 1" by simp
  define c where "c = \<lceil>1 / a\<rceil>"
  have inv: "1 < 1 / a" using assms a1 by simp
  have c2: "2 \<le> c" unfolding c_def using inv by linarith
  define n where "n = nat (c - 1)"
  have n1: "0 < n" using c2 by (simp add: n_def)
  define j where "j = floorlog 2 n"
  have b: "2 ^ (j - 1) \<le> n \<and> n < 2 ^ j"
    unfolding j_def using floorlog_bounds [of n 2] n1 by simp
  have jpos: "0 < j" using b n1 by (cases j) auto
  have fl: "floorLog2 a = - int j"
    using False by (simp add: floorLog2_def n_def j_def c_def)
  have cn: "c = int n + 1" using c2 by (simp add: n_def)
  have ub: "1 / a \<le> of_int c" unfolding c_def by (rule le_of_int_ceiling)
  have lb: "of_int c - 1 < 1 / a" unfolding c_def by linarith
  have cj: "(of_int c :: rat) \<le> 2 ^ j"
  proof -
    have "n + 1 \<le> 2 ^ j" using b by simp
    then have "(of_nat (n + 1) :: rat) \<le> of_nat (2 ^ j)" by (simp only: of_nat_le_iff)
    then show ?thesis by (simp add: cn)
  qed
  have nj: "(2::rat) ^ (j - 1) \<le> of_int c - 1"
  proof -
    have "(of_nat (2 ^ (j - 1)) :: rat) \<le> of_nat n" using b by (simp only: of_nat_le_iff)
    then show ?thesis by (simp add: cn)
  qed
  have A: "1 / a \<le> 2 ^ j" using ub cj by linarith
  have B: "(2::rat) ^ (j - 1) < 1 / a" using lb nj by linarith
  have lo: "(2::rat) powi (- int j) \<le> a"
  proof -
    have "1 \<le> a * 2 ^ j" using A assms by (simp add: field_simps)
    then have "1 / 2 ^ j \<le> a" by (simp add: field_simps)
    then show ?thesis by (simp add: power_int_minus_divide)
  qed
  have hi: "a < (2::rat) powi (- int j + 1)"
  proof -
    have "a * 2 ^ (j - 1) < 1" using B assms by (simp add: field_simps)
    then have "a < 1 / 2 ^ (j - 1)" by (simp add: field_simps)
    moreover have "(2::rat) powi (- int j + 1) = 1 / 2 ^ (j - 1)"
    proof -
      have "- int j + 1 = - int (j - 1)" using jpos by simp
      then show ?thesis by (simp only: power_int_minus_divide power_int_of_nat)
    qed
    ultimately show ?thesis by simp
  qed
  show ?thesis unfolding fl using lo hi by simp
qed

lemma roundHalfEven_of_int: "roundHalfEven (of_int z) = z"
  by (simp add: roundHalfEven_def)

lemma toDouble_minus: "toDouble (- x) = negate (toDouble x)"
  by (simp add: toDouble_def Let_def)

lemma roundHalfEven_nonneg: "0 \<le> x \<Longrightarrow> 0 \<le> roundHalfEven x"
  by (auto simp: roundHalfEven_def Let_def)

lemma toDouble_nonneg: "0 \<le> x \<Longrightarrow> nonNegative (toDouble x)"
  using roundHalfEven_nonneg [of "x / 2 powi max (floorLog2 x - 52) (- 1074)"]
  by (auto simp: toDouble_def Let_def)

lemma toDouble_dyadic:
  assumes m: "0 < m" "m < 2 ^ 53" and e: "- 1074 \<le> e'"
    and small: "of_int m * 2 powi e' < (2::rat) ^ 1024"
  shows "toDouble (of_int m * 2 powi e') = Fin (of_int m * 2 powi e')"
proof -
  define a :: rat where "a = of_int m * 2 powi e'"
  have apos: "0 < a" using m by (simp add: a_def)
  define k where "k = floorLog2 a"
  define e where "e = max (k - 52) (- 1074)"
  have kb: "2 powi k \<le> a" unfolding k_def using floorLog2_bounds [OF apos] by simp
  have "(of_int m :: rat) < 2 ^ 53" using m(2) by (metis of_int_less_iff of_int_numeral of_int_power)
  then have "a < 2 ^ 53 * 2 powi e'" by (simp add: a_def)
  also have "\<dots> = 2 powi (53 + e')" by (simp add: power_int_add)
  finally have lt: "(2::rat) powi k < 2 powi (53 + e')" using kb by simp
  have "k < 53 + e'"
  proof (rule ccontr)
    assume "\<not> k < 53 + e'"
    then have "53 + e' \<le> k" by simp
    then have "(2::rat) powi (53 + e') \<le> 2 powi k" by (intro power_int_increasing) auto
    with lt show False by simp
  qed
  then have ee: "e \<le> e'" using e by (simp add: e_def)
  define d where "d = nat (e' - e)"
  have de: "e' = e + int d" using ee by (simp add: d_def)
  have q: "a / 2 powi e = of_int (m * 2 ^ d)"
    by (simp add: a_def de power_int_add)
  have r: "roundHalfEven (a / 2 powi e) = m * 2 ^ d"
    unfolding q by (rule roundHalfEven_of_int)
  have v: "of_int (m * 2 ^ d) * 2 powi e = a"
    by (simp add: a_def de power_int_add)
  have "toDouble a = Fin a"
    using apos small r v
    by (simp add: toDouble_def Let_def e_def [symmetric] k_def [symmetric] a_def [symmetric])
  then show ?thesis by (simp add: a_def)
qed

lemma toDouble_of_nat:
  assumes "n < 2 ^ 53"
  shows "toDouble (of_nat n) = Fin (of_nat n)"
proof (cases "n = 0")
  case True
  then show ?thesis by (simp add: toDouble_def)
next
  case False
  have "(of_nat n :: rat) < of_nat (2 ^ 53)" using assms by (simp only: of_nat_less_iff)
  then have "(of_nat n :: rat) < 2 ^ 1024"
    by (simp add: order_less_le_trans [where y = "2 ^ 53"])
  then show ?thesis
    using toDouble_dyadic [of "int n" 0] assms False by simp
qed

lemma toDouble_half: "toDouble (1 / 2) = Fin (1 / 2)"
  using toDouble_dyadic [of 1 "- 1"] by (simp add: power_int_minus_divide)

lemma toDouble_one: "toDouble 1 = Fin 1"
  using toDouble_of_nat [of 1] by simp

lemma toDouble_five: "toDouble 5 = Fin 5"
  using toDouble_of_nat [of 5] by simp

lemma toDouble_hundred: "toDouble 100 = Fin 100"
  using toDouble_of_nat [of 100] by simp

lemma floorLog2_unique:
  assumes "2 powi k \<le> a" "a < 2 powi (k + 1)"
  shows "floorLog2 a = k"
proof -
  have pos: "0 < a"
  proof -
    have "(0::rat) < 2 powi k" by simp
    with assms(1) show ?thesis by linarith
  qed
  note b = floorLog2_bounds [OF pos]
  have "\<not> floorLog2 a < k"
  proof
    assume "floorLog2 a < k"
    then have "floorLog2 a + 1 \<le> k" by simp
    then have "(2::rat) powi (floorLog2 a + 1) \<le> 2 powi k"
      by (intro power_int_increasing) simp_all
    with b assms(1) show False by linarith
  qed
  moreover have "\<not> k < floorLog2 a"
  proof
    assume "k < floorLog2 a"
    then have "k + 1 \<le> floorLog2 a" by simp
    then have "(2::rat) powi (k + 1) \<le> 2 powi floorLog2 a"
      by (intro power_int_increasing) simp_all
    with b assms(2) show False by linarith
  qed
  ultimately show ?thesis by linarith
qed

text \<open>
  The double nearest to 0.05: \<open>2^-5 \<le> 1/20 < 2^-4\<close>, so the unit in the last place
  is \<open>2^-57\<close>, and \<open>2^57 / 20 = 7205759403792793.6\<close> rounds up.
\<close>

lemma toDouble_pos:
  assumes "0 < x" "floorLog2 x = k" "max (k - 52) (- 1074) = e"
    "roundHalfEven (x / 2 powi e) = m" "of_int m * 2 powi e = v" "v < 2 ^ 1024"
  shows "toDouble x = Fin v"
  using assms by (simp add: toDouble_def Let_def)

lemma toDouble_twentieth: "toDouble (1 / 20) = Fin (3602879701896397 / 72057594037927936)"
proof (rule toDouble_pos)
  show "(0::rat) < 1 / 20" by simp
  show "floorLog2 (1 / 20) = - 5"
    by (rule floorLog2_unique) (simp_all add: power_int_minus_divide)
  show "max (- 5 - 52) (- 1074) = (- 57 :: int)" by simp
  have p: "(2::rat) powi (- 57) = 1 / 144115188075855872"
    by (simp add: power_int_minus_divide)
  have fl: "\<lfloor>(36028797018963968 / 5 :: rat)\<rfloor> = 7205759403792793"
    by (rule floor_unique) simp_all
  have q: "(1 / 20 :: rat) / (1 / 144115188075855872) = 36028797018963968 / 5"
    by simp
  have r: "roundHalfEven (36028797018963968 / 5) = 7205759403792794"
    unfolding roundHalfEven_def fl Let_def by simp
  show "roundHalfEven ((1 / 20) / 2 powi (- 57)) = 7205759403792794"
    unfolding p q by (rule r)
  show "of_int 7205759403792794 * (2::rat) powi (- 57)
        = 3602879701896397 / 72057594037927936"
    unfolding p by simp
  show "(3602879701896397 / 72057594037927936 :: rat) < 2 ^ 1024" by simp
qed

section \<open>Properties of campaign validation\<close>

lemma stringErrors_Nil_iff:
  "0 < lo \<Longrightarrow> stringErrors v lo hi a b c d = [] \<longleftrightarrow> lengthWithin lo hi v"
  by (auto simp: stringErrors_def lengthWithin_def split: option.splits json.splits)

lemma stringErrors_subset: "set (stringErrors v lo hi a b c d) \<subseteq> {a, b, c, d}"
  by (auto simp: stringErrors_def split: option.splits json.splits if_splits)

lemma platformErrors_Nil_iff: "platformErrors data = [] \<longleftrightarrow> specPlatform data"
  by (cases "readProp data (str ''platform'')")
     (auto simp: platformErrors_def specPlatform_def Let_def str_def)

lemma isInteger_Fin: "isInteger (Fin q) \<longleftrightarrow> q \<in> \<int>"
  by (auto simp: isInteger_def Ints_def)

lemma isInteger_other [simp]: "\<not> isInteger NaN" "\<not> isInteger PosInf" "\<not> isInteger NegInf"
  by (simp_all add: isInteger_def)

lemma totalCookiesErrors_Nil_iff: "totalCookiesErrors data = [] \<longleftrightarrow> specTotalCookies data"
  by (auto simp: totalCookiesErrors_def specTotalCookies_def isInteger_Fin
      split: option.splits json.splits jsnum.splits)

lemma sponsorUrlErrors_Nil_iff:
  "sponsorUrlErrors validURL sp = [] \<longleftrightarrow> specSponsorUrl validURL sp"
  by (auto simp: sponsorUrlErrors_def specSponsorUrl_def split: option.splits json.splits)

lemma truthy_if_field: "lengthWithin lo hi (readProp sp k) \<Longrightarrow> truthy (Some sp)"
  by (cases sp) (auto simp: readProp_def lengthWithin_def)

lemma sponsorErrors_Nil_iff:
  "sponsorErrors validURL data = [] \<longleftrightarrow> specSponsor validURL data"
  by (auto simp: sponsorErrors_def specSponsor_def Let_def stringErrors_Nil_iff
      sponsorUrlErrors_Nil_iff split: option.splits dest: truthy_if_field)

lemma reportedFields_append [simp]:
  "reportedFields (xs @ ys) = reportedFields xs \<union> reportedFields ys"
  by (auto simp: reportedFields_def)

lemma reportedFields_Nil [simp]: "reportedFields [] = {}"
  by (simp add: reportedFields_def)

lemma reportedFields_stringErrors:
  assumes "0 < lo" and "violationField a = f" "violationField b = f" "violationField c = f"
    "violationField d = f"
  shows "reportedFields (stringErrors v lo hi a b c d)
         = (if lengthWithin lo hi v then {} else {f})"
proof (cases "lengthWithin lo hi v")
  case True
  then have "stringErrors v lo hi a b c d = []"
    using assms(1) by (simp add: stringErrors_Nil_iff)
  then show ?thesis using True by simp
next
  case False
  then have ne: "stringErrors v lo hi a b c d \<noteq> []"
    using assms(1) by (simp add: stringErrors_Nil_iff)
  have "reportedFields (stringErrors v lo hi a b c d) \<subseteq> {f}"
    using stringErrors_subset [of v lo hi a b c d] assms(2-)
    by (auto simp: reportedFields_def)
  moreover have "reportedFields (stringErrors v lo hi a b c d) \<noteq> {}"
    using ne by (simp add: reportedFields_def)
  ultimately show ?thesis using False by auto
qed

lemma reportedFields_platformErrors:
  "reportedFields (platformErrors data) = (if specPlatform data then {} else {FPlatform})"
proof (cases "specPlatform data")
  case True
  then have "platformErrors data = []" by (simp add: platformErrors_Nil_iff)
  then show ?thesis using True by simp
next
  case False
  then have "platformErrors data \<noteq> []" by (simp add: platformErrors_Nil_iff)
  then show ?thesis using False
    by (auto simp: platformErrors_def reportedFields_def Let_def split: if_splits)
qed

lemma reportedFields_single:
  "xs \<noteq> [] \<Longrightarrow> (\<And>v. v \<in> set xs \<Longrightarrow> violationField v = f) \<Longrightarrow> reportedFields xs = {f}"
  by (cases xs) (auto simp: reportedFields_def)

lemma totalCookiesErrors_field:
  "v \<in> set (totalCookiesErrors data) \<Longrightarrow> violationField v = FTotalCookies"
  by (auto simp: totalCookiesErrors_def
      split: option.splits json.splits jsnum.splits if_splits)

lemma reportedFields_totalCookiesErrors:
  "reportedFields (totalCookiesErrors data)
   = (if specTotalCookies data then {} else {FTotalCookies})"
proof (cases "specTotalCookies data")
  case True
  then have "totalCookiesErrors data = []" by (simp add: totalCookiesErrors_Nil_iff)
  then show ?thesis using True by simp
next
  case False
  then have "totalCookiesErrors data \<noteq> []" by (simp add: totalCookiesErrors_Nil_iff)
  then have "reportedFields (totalCookiesErrors data) = {FTotalCookies}"
    by (rule reportedFields_single) (rule totalCookiesErrors_field)
  then show ?thesis using False by simp
qed

lemma reportedFields_sponsorUrlErrors:
  "reportedFields (sponsorUrlErrors validURL sp)
   = (if specSponsorUrl validURL sp then {} else {FSponsorUrl})"
  by (auto simp: sponsorUrlErrors_def specSponsorUrl_def reportedFields_def
      split: option.splits json.splits)

lemma reportedFields_sponsorErrors:
  "reportedFields (sponsorErrors validURL data) =
     (if \<not> truthy (readProp data (str ''sponsor'')) then {FSponsor}
      else (if lengthWithin 1 100 (readProp (the (readProp data (str ''sponsor''))) (str ''name''))
            then {} else {FSponsorName})
         \<union> (if lengthWithin 1 50 (readProp (the (readProp data (str ''sponsor''))) (str ''handle''))
            then {} else {FSponsorHandle})
         \<union> (if specSponsorUrl validURL (the (readProp data (str ''sponsor'')))
            then {} else {FSponsorUrl}))"
  by (simp add: sponsorErrors_def Let_def reportedFields_stringErrors
      reportedFields_sponsorUrlErrors)
    (simp add: reportedFields_def)

lemma errors_Nil_iff:
  "platformErrors data @ nameErrors data @ descriptionErrors data
     @ totalCookiesErrors data @ sponsorErrors validURL data = []
   \<longleftrightarrow> specCampaignDescriptor validURL data"
  by (simp add: specCampaignDescriptor_def platformErrors_Nil_iff totalCookiesErrors_Nil_iff
      sponsorErrors_Nil_iff nameErrors_def descriptionErrors_def stringErrors_Nil_iff)

lemma validate_errors:
  "data \<noteq> JNull \<Longrightarrow>
   validateCampaignData validURL data =
     (if specCampaignDescriptor validURL data then Inr data
      else Inl (ValidationFailed (platformErrors data @ nameErrors data @ descriptionErrors data
                  @ totalCookiesErrors data @ sponsorErrors validURL data)))"
  unfolding validateCampaignData_def Let_def length_greater_0_conv errors_Nil_iff
  by simp

lemma spec_not_null: "specCampaignDescriptor validURL data \<Longrightarrow> data \<noteq> JNull"
  by (auto simp: specCampaignDescriptor_def specPlatform_def readProp_def)

text \<open>
  C7. Campaign validation is aggregate. It accepts a value exactly when the value is a
  CampaignDescriptor in the specification's sense; otherwise it fails, and for any input
  but \<open>null\<close> the failure is one \<open>ValidationFailed\<close> error whose list reports every
  field that violates its bound, whatever the other fields do (the sponsor's name, handle
  and URL each on its own when a sponsor is present). In particular an input whose name
  is \<open>ab\<close> and whose totalCookies is 2 fails with one error that holds both the
  name-too-short and the totalCookies-below-minimum violations.
\<close>

theorem validateCampaignData_aggregate:
  "(validateCampaignData validURL data = Inr data \<longleftrightarrow> specCampaignDescriptor validURL data)
   \<and> (\<not> specCampaignDescriptor validURL data
        \<longrightarrow> (\<exists>e. validateCampaignData validURL data = Inl e))
   \<and> (data \<noteq> JNull \<and> \<not> specCampaignDescriptor validURL data \<longrightarrow>
        (\<exists>vs. validateCampaignData validURL data = Inl (ValidationFailed vs)
           \<and> (FPlatform \<in> reportedFields vs \<longleftrightarrow> \<not> specPlatform data)
           \<and> (FName \<in> reportedFields vs
                \<longleftrightarrow> \<not> lengthWithin 3 100 (readProp data (str ''name'')))
           \<and> (FDescription \<in> reportedFields vs
                \<longleftrightarrow> \<not> lengthWithin 10 500 (readProp data (str ''description'')))
           \<and> (FTotalCookies \<in> reportedFields vs \<longleftrightarrow> \<not> specTotalCookies data)
           \<and> (FSponsor \<in> reportedFields vs
                \<longleftrightarrow> \<not> truthy (readProp data (str ''sponsor'')))
           \<and> (truthy (readProp data (str ''sponsor'')) \<longrightarrow>
                (FSponsorName \<in> reportedFields vs
                   \<longleftrightarrow> \<not> lengthWithin 1 100
                         (readProp (the (readProp data (str ''sponsor''))) (str ''name'')))
                \<and> (FSponsorHandle \<in> reportedFields vs
                   \<longleftrightarrow> \<not> lengthWithin 1 50
                         (readProp (the (readProp data (str ''sponsor''))) (str ''handle'')))
                \<and> (FSponsorUrl \<in> reportedFields vs
                   \<longleftrightarrow> \<not> specSponsorUrl validURL (the (readProp data (str ''sponsor'')))))))
   \<and> (readProp data (str ''name'') = Some (JStr (str ''ab''))
        \<and> readProp data (str ''totalCookies'') = Some (JNum (Fin 2)) \<longrightarrow>
        (\<exists>vs. validateCampaignData validURL data = Inl (ValidationFailed vs)
           \<and> NameTooShort \<in> set vs \<and> TotalCookiesTooFew \<in> set vs))"
proof (intro conjI impI)
  show "validateCampaignData validURL data = Inr data \<longleftrightarrow> specCampaignDescriptor validURL data"
  proof (cases "data = JNull")
    case True
    then show ?thesis using spec_not_null [of validURL data]
      by (auto simp: validateCampaignData_def)
  next
    case False
    then show ?thesis by (simp add: validate_errors)
  qed
next
  assume "\<not> specCampaignDescriptor validURL data"
  then show "\<exists>e. validateCampaignData validURL data = Inl e"
  proof (cases "data = JNull")
    case True
    then show ?thesis by (simp add: validateCampaignData_def)
  next
    case False
    with \<open>\<not> specCampaignDescriptor validURL data\<close> show ?thesis
      by (simp add: validate_errors)
  qed
next
  assume a: "data \<noteq> JNull \<and> \<not> specCampaignDescriptor validURL data"
  let ?vs = "platformErrors data @ nameErrors data @ descriptionErrors data
                  @ totalCookiesErrors data @ sponsorErrors validURL data"
  have v: "validateCampaignData validURL data = Inl (ValidationFailed ?vs)"
    using a by (simp add: validate_errors)
  have rf: "reportedFields ?vs =
      (if specPlatform data then {} else {FPlatform})
      \<union> (if lengthWithin 3 100 (readProp data (str ''name'')) then {} else {FName})
      \<union> (if lengthWithin 10 500 (readProp data (str ''description'')) then {} else {FDescription})
      \<union> (if specTotalCookies data then {} else {FTotalCookies})
      \<union> reportedFields (sponsorErrors validURL data)"
    by (simp add: reportedFields_platformErrors reportedFields_totalCookiesErrors
        nameErrors_def descriptionErrors_def reportedFields_stringErrors Un_assoc)
  show "\<exists>vs. validateCampaignData validURL data = Inl (ValidationFailed vs)
           \<and> (FPlatform \<in> reportedFields vs \<longleftrightarrow> \<not> specPlatform data)
           \<and> (FName \<in> reportedFields vs
                \<longleftrightarrow> \<not> lengthWithin 3 100 (readProp data (str ''name'')))
           \<and> (FDescription \<in> reportedFields vs
                \<longleftrightarrow> \<not> lengthWithin 10 500 (readProp data (str ''description'')))
           \<and> (FTotalCookies \<in> reportedFields vs \<longleftrightarrow> \<not> specTotalCookies data)
           \<and> (FSponsor \<in> reportedFields vs
                \<longleftrightarrow> \<not> truthy (readProp data (str ''sponsor'')))
           \<and> (truthy (readProp data (str ''sponsor'')) \<longrightarrow>
                (FSponsorName \<in> reportedFields vs
                   \<longleftrightarrow> \<not> lengthWithin 1 100
                         (readProp (the (readProp data (str ''sponsor''))) (str ''name'')))
                \<and> (FSponsorHandle \<in> reportedFields vs
                   \<longleftrightarrow> \<not> lengthWithin 1 50
                         (readProp (the (readProp data (str ''sponsor''))) (str ''handle'')))
                \<and> (FSponsorUrl \<in> reportedFields vs
                   \<longleftrightarrow> \<not> specSponsorUrl validURL (the (readProp data (str ''sponsor'')))))"
    apply (rule exI [of _ ?vs])
    apply (rule conjI [OF v])
    apply (simp only: rf reportedFields_sponsorErrors)
    apply (simp split: if_splits)
    done
next
  assume a: "readProp data (str ''name'') = Some (JStr (str ''ab''))
        \<and> readProp data (str ''totalCookies'') = Some (JNum (Fin 2))"
  then have nn: "data \<noteq> JNull" by (auto simp: readProp_def)
  have ns: "\<not> specCampaignDescriptor validURL data"
    using a by (simp add: specCampaignDescriptor_def lengthWithin_def str_def)
  have n: "nameErrors data = [NameTooShort]"
    using a by (simp add: nameErrors_def stringErrors_def str_def)
  have c: "totalCookiesErrors data = [TotalCookiesTooFew]"
    using a by (simp add: totalCookiesErrors_def isInteger_def)
  show "\<exists>vs. validateCampaignData validURL data = Inl (ValidationFailed vs)
           \<and> NameTooShort \<in> set vs \<and> TotalCookiesTooFew \<in> set vs"
    using nn ns by (simp add: validate_errors n c)
qed

theorem validateCampaignData_aggregate_witness:
  "validateCampaignData (\<lambda>u. True)
     (JObj [(str ''name'', JStr (str ''ab'')), (str ''totalCookies'', JNum (Fin 2))])
   = Inl (ValidationFailed [PlatformRequired, NameTooShort, DescriptionRequired,
        TotalCookiesTooFew, SponsorRequired])
   \<and> \<not> specCampaignDescriptor (\<lambda>u. True)
       (JObj [(str ''name'', JStr (str ''ab'')), (str ''totalCookies'', JNum (Fin 2))])"
  using validateCampaignData_aggregate [of "\<lambda>u. True"
      "JObj [(str ''name'', JStr (str ''ab'')), (str ''totalCookies'', JNum (Fin 2))]"]
  by (simp add: validateCampaignData_def platformErrors_def nameErrors_def
      descriptionErrors_def totalCookiesErrors_def sponsorErrors_def stringErrors_def
      readProp_def isInteger_def str_def Let_def)

section \<open>Properties of receiver validation\<close>

lemma validateReceiver_errors:
  "validateReceiver p r = Inl e \<Longrightarrow> isReceiverError e \<and> p \<in> set allowedIdentities"
  by (auto simp: validateReceiver_def validateXUsername_def validateFarcasterUsername_def
      validateGitHubUsername_def validateEmail_def validateWebDomain_def isReceiverError_def
      allowedIdentities_def split: if_splits)

lemma normalizePlatform_not_receiver_error:
  "normalizePlatform p = Inl e \<Longrightarrow> \<not> isReceiverError e"
  by (auto simp: normalizePlatform_def isReceiverError_def Let_def split: option.splits if_splits)

text \<open>
  C10. For a platform string that is not one of the five canonical identities,
  \<open>validateReceiver\<close> returns without checking anything, whatever the receiver. The
  send command enforces receiver syntax only behind \<open>normalizePlatform\<close>: when
  \<open>parsePaymentTarget\<close> fails with a receiver error, the platform token had been
  normalized to one of the five identities.
\<close>

theorem validateReceiver_unrecognized:
  "(platf \<notin> set allowedIdentities \<longrightarrow> validateReceiver platf receiver = Inr ())
   \<and> (parsePaymentTarget target = Inl e \<and> isReceiverError e \<longrightarrow>
        (\<exists>token r p. splitOn 47 target = [token, r]
           \<and> normalizePlatform token = Inr (Canonical p) \<and> p \<in> set allowedIdentities))"
proof (intro conjI impI)
  assume "platf \<notin> set allowedIdentities"
  then show "validateReceiver platf receiver = Inr ()"
    by (simp add: validateReceiver_def allowedIdentities_def)
next
  assume a: "parsePaymentTarget target = Inl e \<and> isReceiverError e"
  then obtain token r where s: "splitOn 47 target = [token, r]"
    by (auto simp: parsePaymentTarget_def isReceiverError_def split: list.splits)
  from a s obtain identity where n: "normalizePlatform token = Inr identity"
    and v: "validateFor identity r = Inl e"
    by (auto simp: parsePaymentTarget_def split: sum.splits
        dest: normalizePlatform_not_receiver_error)
  from v obtain p where "identity = Canonical p" "validateReceiver p r = Inl e"
    by (cases identity) auto
  with n s validateReceiver_errors [of p r e] show "\<exists>token r p. splitOn 47 target = [token, r]
           \<and> normalizePlatform token = Inr (Canonical p) \<and> p \<in> set allowedIdentities"
    by auto
qed

lemma repeat_numeral:
  "repeat (numeral k) f mn mx s = repeat (Suc (pred_numeral k)) f mn mx s"
  by (simp add: numeral_eq_Suc)

lemmas regex_eval = regexExec_def regexTest_def matchAt_def guarded_def repeat_numeral
  inClass_def inRanges_def lowerUnit_def upperUnit_def seq_def lit_def
  oneOrMore_def zeroOrMore_def optional_def
  digitClass_def wordClass_def alnumClass_def letterClass_def spaceClass_def ch_def str_def
  matchEnd_def matchStart_def

lemma target_bad_handle:
  "parsePaymentTarget (str ''x/not a handle!'') = Inl (InvalidXUsername (str ''not a handle!''))"
  by (simp add: parsePaymentTarget_def normalizePlatform_def platformMap_def toLowerCase_def
      validateReceiver_def validateXUsername_def xUsernamePattern_def regex_eval)

theorem validateReceiver_unrecognized_witness:
  "validateReceiver (str ''twitter'') (str ''not a handle!'') = Inr ()
   \<and> parsePaymentTarget (str ''x/not a handle!'') = Inl (InvalidXUsername (str ''not a handle!''))
   \<and> (\<exists>token r p. splitOn 47 (str ''x/not a handle!'') = [token, r]
         \<and> normalizePlatform token = Inr (Canonical p) \<and> p \<in> set allowedIdentities)"
proof -
  have a: "str ''twitter'' \<notin> set allowedIdentities"
    by (simp add: allowedIdentities_def str_def)
  have b: "isReceiverError (InvalidXUsername (str ''not a handle!''))"
    by (simp add: isReceiverError_def)
  show ?thesis
    using validateReceiver_unrecognized [of "str ''twitter''" "str ''not a handle!''"
        "str ''x/not a handle!''" "InvalidXUsername (str ''not a handle!'')"]
      a b target_bad_handle
    by blast
qed

section \<open>Properties of amount parsing\<close>

lemma isDigit_not_white: "isDigit c \<Longrightarrow> \<not> isWhiteSpace c"
  by (auto simp: isDigit_def isWhiteSpace_def)

lemma trim_id:
  assumes "s \<noteq> []" "\<not> isWhiteSpace (hd s)" "\<not> isWhiteSpace (last s)"
  shows "trim s = s"
proof -
  have a: "trimStart s = s" using assms(1,2) by (cases s) (auto simp: trimStart_def)
  have "dropWhile isWhiteSpace (rev s) = rev s"
    using assms(1,3) by (cases "rev s") (auto simp: last_rev [symmetric] simp del: last_rev hd_rev)
  then show ?thesis by (simp add: trim_def a)
qed

lemma decimalDigits_digits: "list_all isDigit (decimalDigits n)"
proof (induction n rule: decimalDigits.induct)
  case (1 n)
  show ?case
  proof (cases "n < 10")
    case True
    then show ?thesis by (subst decimalDigits.simps) (simp add: isDigit_def)
  next
    case False
    have "n mod 10 < 10" by simp
    then have "isDigit (48 + n mod 10)" unfolding isDigit_def by linarith
    with False 1 show ?thesis by (subst decimalDigits.simps) simp
  qed
qed

lemma decimalDigits_nonempty: "decimalDigits n \<noteq> []"
  by (subst decimalDigits.simps) simp

lemma digitsValue_snoc: "digitsValue (ds @ [c]) = 10 * digitsValue ds + (c - 48)"
  by (simp add: digitsValue_def)

lemma digitsValue_decimalDigits: "digitsValue (decimalDigits n) = n"
proof (induction n rule: decimalDigits.induct)
  case (1 n)
  show ?case
  proof (cases "n < 10")
    case True
    then show ?thesis by (subst decimalDigits.simps) (simp add: digitsValue_def)
  next
    case False
    with 1 show ?thesis
      by (subst decimalDigits.simps) (simp add: digitsValue_snoc)
  qed
qed

lemma toDouble_not_NaN [simp]: "toDouble x \<noteq> NaN"
  by (simp add: toDouble_def Let_def)

lemma takeWhile_all: "list_all P xs \<Longrightarrow> takeWhile P xs = xs"
  by (induction xs) auto

lemma dropWhile_all: "list_all P xs \<Longrightarrow> dropWhile P xs = []"
  by (induction xs) auto

lemma takeWhile_digits_stop:
  "list_all isDigit ip \<Longrightarrow> \<not> isDigit c \<Longrightarrow> takeWhile isDigit (ip @ c # r) = ip"
  by (induction ip) auto

lemma dropWhile_digits_stop:
  "list_all isDigit ip \<Longrightarrow> \<not> isDigit c \<Longrightarrow> dropWhile isDigit (ip @ c # r) = c # r"
  by (induction ip) auto

lemma not_Infinity: "t \<noteq> [] \<Longrightarrow> hd t \<noteq> 73 \<Longrightarrow> \<not> startsWith t (str ''Infinity'')"
  by (cases t) (auto simp: startsWith_def str_def)

lemma strUnsigned_digits:
  assumes "ds \<noteq> []" "list_all isDigit ds"
  shows "strUnsignedDecimalLiteral ds = toDouble (of_nat (digitsValue ds))"
proof -
  have "isDigit (hd ds)" using assms by (cases ds) auto
  then have "hd ds \<noteq> 73" by (auto simp: isDigit_def)
  then have "\<not> startsWith ds (str ''Infinity'')" using assms(1) by (rule not_Infinity [rotated])
  then show ?thesis
    using assms
    by (simp add: strUnsignedDecimalLiteral_def takeWhile_all dropWhile_all exponentPart_def)
qed

lemma parseFloat_digits:
  assumes "ds \<noteq> []" "list_all isDigit ds"
  shows "parseFloat ds = toDouble (of_nat (digitsValue ds))"
proof -
  obtain c r where ds: "ds = c # r" using assms(1) by (cases ds) auto
  then have d: "isDigit c" using assms(2) by simp
  then have "\<not> isWhiteSpace c" "c \<noteq> 45" "c \<noteq> 43"
    by (auto simp: isDigit_def isWhiteSpace_def)
  then show ?thesis
    using strUnsigned_digits [OF assms] by (simp add: parseFloat_def trimStart_def ds)
qed

lemma strUnsigned_decimal:
  assumes "list_all isDigit ip" "list_all isDigit fp" "fp \<noteq> []"
  shows "strUnsignedDecimalLiteral (ip @ 46 # fp)
         = toDouble (of_nat (digitsValue (ip @ fp)) / 10 ^ length fp)"
proof -
  have nd: "\<not> isDigit 46" by (simp add: isDigit_def)
  have "hd (ip @ 46 # fp) \<noteq> 73"
    using assms(1) by (cases ip) (auto simp: isDigit_def)
  then have ni: "\<not> startsWith (ip @ 46 # fp) (str ''Infinity'')"
    by (intro not_Infinity) auto
  show ?thesis
    using assms ni
    by (simp add: strUnsignedDecimalLiteral_def takeWhile_digits_stop [OF _ nd]
        dropWhile_digits_stop [OF _ nd] takeWhile_all dropWhile_all exponentPart_def
        power_int_minus_divide)
qed

lemma parseFloat_decimal:
  assumes "list_all isDigit ip" "list_all isDigit fp" "fp \<noteq> []"
  shows "parseFloat (ip @ 46 # fp) = toDouble (of_nat (digitsValue (ip @ fp)) / 10 ^ length fp)"
proof -
  obtain c r where s: "ip @ 46 # fp = c # r" by (cases ip) auto
  then have "isDigit c \<or> c = 46" using assms(1) by (cases ip) auto
  then have "\<not> isWhiteSpace c" "c \<noteq> 45" "c \<noteq> 43"
    by (auto simp: isDigit_def isWhiteSpace_def)
  then show ?thesis
    using strUnsigned_decimal [OF assms] by (simp add: parseFloat_def trimStart_def s)
qed

lemma strUnsigned_digits_stop:
  assumes "ds \<noteq> []" "list_all isDigit ds" "\<not> isDigit c" "c \<noteq> 46" "c \<noteq> 101" "c \<noteq> 69"
  shows "strUnsignedDecimalLiteral (ds @ c # r) = toDouble (of_nat (digitsValue ds))"
proof -
  have "isDigit (hd ds)" using assms(1,2) by (cases ds) auto
  then have "hd (ds @ c # r) \<noteq> 73" using assms(1) by (auto simp: isDigit_def)
  then have ni: "\<not> startsWith (ds @ c # r) (str ''Infinity'')"
    by (intro not_Infinity) auto
  show ?thesis
    using assms ni
    by (simp add: strUnsignedDecimalLiteral_def takeWhile_digits_stop dropWhile_digits_stop
        exponentPart_def)
qed

lemma parseFloat_digits_stop:
  assumes "ds \<noteq> []" "list_all isDigit ds" "\<not> isDigit c" "c \<noteq> 46" "c \<noteq> 101" "c \<noteq> 69"
  shows "parseFloat (ds @ c # r) = toDouble (of_nat (digitsValue ds))"
proof -
  obtain d ds' where ds: "ds = d # ds'" using assms(1) by (cases ds) auto
  then have "isDigit d" using assms(2) by simp
  then have "\<not> isWhiteSpace d" "d \<noteq> 45" "d \<noteq> 43"
    by (auto simp: isDigit_def isWhiteSpace_def)
  then show ?thesis
    using strUnsigned_digits_stop [OF assms, of r]
    by (simp add: parseFloat_def trimStart_def ds)
qed

lemma endsWith_suffix_snoc: "endsWith (ds @ centsSuffix) centsSuffix"
  by (simp add: endsWith_def centsSuffix_def)

lemma trim_suffix:
  assumes "ds \<noteq> []" "list_all isDigit ds"
  shows "trim (ds @ centsSuffix) = ds @ centsSuffix"
proof (rule trim_id)
  show "ds @ centsSuffix \<noteq> []" using assms by simp
  have "isDigit (hd ds)" using assms by (cases ds) auto
  then show "\<not> isWhiteSpace (hd (ds @ centsSuffix))"
    using assms(1) by (simp add: isDigit_not_white)
  show "\<not> isWhiteSpace (last (ds @ centsSuffix))"
    by (simp add: centsSuffix_def isWhiteSpace_def)
qed

text \<open>Digits before the stored two-unit suffix: the cents branch, the amount in hundredths.\<close>

lemma parseAmount_suffix_digits:
  assumes "ds \<noteq> []" "list_all isDigit ds"
  shows "parseAmount (ds @ centsSuffix)
         = Inr (divideBy (toDouble (of_nat (digitsValue ds))) 100)"
    and "parseAmountString (ds @ centsSuffix)
         = Inr (divideBy (toDouble (of_nat (digitsValue ds))) 100)"
proof -
  have b: "butlast (ds @ centsSuffix) = ds @ [172]"
    by (simp add: centsSuffix_def butlast_append)
  have f: "parseFloat (ds @ [172]) = toDouble (of_nat (digitsValue ds))"
    by (rule parseFloat_digits_stop [OF assms]) (simp_all add: isDigit_def)
  show "parseAmount (ds @ centsSuffix)
         = Inr (divideBy (toDouble (of_nat (digitsValue ds))) 100)"
    by (simp add: parseAmount_def trim_suffix [OF assms] endsWith_suffix_snoc b f Let_def)
  show "parseAmountString (ds @ centsSuffix)
         = Inr (divideBy (toDouble (of_nat (digitsValue ds))) 100)"
    by (simp add: parseAmountString_def trim_suffix [OF assms] endsWith_suffix_snoc b f Let_def)
qed

text \<open>
  Digits before the cents sign alone: the suffix test fails on the digit in front of the
  sign, the token has no dollar sign, and \<open>parseFloat\<close> reads the digits and stops at the
  sign. Both variants return the integer itself.
\<close>

lemma symbol_token_shape:
  assumes "ds \<noteq> []" "list_all isDigit ds"
  shows "trim (ds @ centsSymbol) = ds @ centsSymbol"
    and "\<not> endsWith (ds @ centsSymbol) centsSuffix"
    and "\<not> startsWith (ds @ centsSymbol) (str ''$'')"
    and "parseFloat (ds @ centsSymbol) = toDouble (of_nat (digitsValue ds))"
proof -
  obtain d ds' where ds: "ds = d # ds'" using assms(1) by (cases ds) auto
  then have hd: "isDigit d" using assms(2) by simp
  obtain e es where sn: "ds = es @ [e]" using assms(1) by (cases ds rule: rev_cases) auto
  then have le: "isDigit e" using assms(2) by simp
  show "trim (ds @ centsSymbol) = ds @ centsSymbol"
  proof (rule trim_id)
    show "ds @ centsSymbol \<noteq> []" using assms by simp
    show "\<not> isWhiteSpace (hd (ds @ centsSymbol))"
      using hd by (simp add: ds isDigit_not_white)
    show "\<not> isWhiteSpace (last (ds @ centsSymbol))"
      by (simp add: centsSymbol_def isWhiteSpace_def)
  qed
  show "\<not> endsWith (ds @ centsSymbol) centsSuffix"
    using le by (auto simp: endsWith_def centsSuffix_def centsSymbol_def sn isDigit_def)
  show "\<not> startsWith (ds @ centsSymbol) (str ''$'')"
    using hd by (auto simp: startsWith_def str_def ds isDigit_def)
  show "parseFloat (ds @ centsSymbol) = toDouble (of_nat (digitsValue ds))"
    unfolding centsSymbol_def
    by (rule parseFloat_digits_stop [OF assms]) (simp_all add: isDigit_def)
qed

lemma parseAmount_symbol_digits:
  assumes "ds \<noteq> []" "list_all isDigit ds"
  shows "parseAmount (ds @ centsSymbol) = Inr (toDouble (of_nat (digitsValue ds)))"
    and "parseAmountString (ds @ centsSymbol) = Inr (toDouble (of_nat (digitsValue ds)))"
proof -
  note sh = symbol_token_shape [OF assms]
  show "parseAmount (ds @ centsSymbol) = Inr (toDouble (of_nat (digitsValue ds)))"
    by (simp add: parseAmount_def sh Let_def)
  show "parseAmountString (ds @ centsSymbol) = Inr (toDouble (of_nat (digitsValue ds)))"
    by (simp add: parseAmountString_def sh Let_def)
qed

lemma parseAmount_symbol_nat:
  "parseAmount (decimalDigits N @ centsSymbol) = Inr (toDouble (of_nat N))"
  "batchParseAmount (JStr (decimalDigits N @ centsSymbol)) = Inr (toDouble (of_nat N))"
  using parseAmount_symbol_digits [OF decimalDigits_nonempty decimalDigits_digits, of N]
  by (simp_all add: digitsValue_decimalDigits)

lemma str_five: "str ''5'' = decimalDigits 5"
  by (subst decimalDigits.simps) (simp add: str_def)

text \<open>
  A dollar sign before digits and the cents sign alone: the dollar branch, whose
  \<open>parseFloat\<close> reads the digits and stops at the sign.
\<close>

lemma parseAmount_dollar_symbol:
  "numericPart (str ''$5'' @ centsSymbol) = str ''5'' @ centsSymbol"
  "parseAmount (str ''$5'' @ centsSymbol) = Inr (Fin 5)"
  "parseAmountString (str ''$5'' @ centsSymbol) = Inr (Fin 5)"
proof -
  have d: "str ''5'' \<noteq> []" "list_all isDigit (str ''5'')"
    by (simp_all add: str_def isDigit_def)
  have s: "str ''$5'' @ centsSymbol = 36 # str ''5'' @ centsSymbol" by (simp add: str_def)
  have t: "trim (36 # str ''5'' @ centsSymbol) = 36 # str ''5'' @ centsSymbol"
    by (rule trim_id) (simp_all add: centsSymbol_def isWhiteSpace_def)
  have e: "\<not> endsWith (36 # str ''5'' @ centsSymbol) centsSuffix"
    by (simp add: endsWith_def centsSuffix_def centsSymbol_def str_def)
  have w: "startsWith (36 # str ''5'' @ centsSymbol) (str ''$'')"
    by (simp add: startsWith_def str_def)
  have n: "\<not> list_all isDigit (str ''5'' @ centsSymbol)"
    by (simp add: centsSymbol_def isDigit_def)
  have f: "parseFloat (str ''5'' @ centsSymbol) = Fin 5"
    using symbol_token_shape(4) [OF d] by (simp add: str_def digitsValue_def toDouble_five)
  show "numericPart (str ''$5'' @ centsSymbol) = str ''5'' @ centsSymbol"
    unfolding s by (simp add: numericPart_def t e w)
  show "parseAmount (str ''$5'' @ centsSymbol) = Inr (Fin 5)"
    unfolding s using n by (simp add: parseAmount_def t e w f Let_def del: list_all_append)
  show "parseAmountString (str ''$5'' @ centsSymbol) = Inr (Fin 5)"
    unfolding s by (simp add: parseAmountString_def t e w f Let_def)
qed

text \<open>
  C5 at a failing input. The token \<open>5\<cent>\<close>, the digit 5 followed by the cents sign
  U+00A2, does not end with the two-unit suffix the cents branch tests. Both variants of
  \<open>parseAmount\<close> take the plain branch and return 5, one hundred times the amount
  \<open>5 / 100\<close> (in JavaScript the double nearest to 0.05) that the cents notation stands
  for. Only a token that ends with the stored suffix is divided by 100.
\<close>

theorem parseAmount_cents_unscaled:
  "parseAmount (str ''5'' @ centsSymbol) = Inr (Fin 5)
   \<and> batchParseAmount (JStr (str ''5'' @ centsSymbol)) = Inr (Fin 5)
   \<and> divideBy (Fin 5) 100 = Fin (3602879701896397 / 72057594037927936)
   \<and> parseAmount (str ''5'' @ centsSuffix) = Inr (Fin (3602879701896397 / 72057594037927936))"
proof -
  have n: "decimalDigits 5 \<noteq> []" "list_all isDigit (decimalDigits 5)"
    by (rule decimalDigits_nonempty, rule decimalDigits_digits)
  have a: "parseAmount (str ''5'' @ centsSymbol) = Inr (Fin 5)"
    "batchParseAmount (JStr (str ''5'' @ centsSymbol)) = Inr (Fin 5)"
    using parseAmount_symbol_nat [of 5] by (simp_all add: str_five toDouble_five)
  have b: "divideBy (Fin 5) 100 = Fin (3602879701896397 / 72057594037927936)"
    by (simp add: toDouble_twentieth)
  have c: "parseAmount (str ''5'' @ centsSuffix) = Inr (divideBy (Fin 5) 100)"
    using parseAmount_suffix_digits(1) [OF n]
    by (simp add: str_five digitsValue_decimalDigits toDouble_five)
  show ?thesis using a b c by simp
qed

lemma trim_dollar:
  assumes "t \<noteq> []" "isDigit (last t)"
  shows "trim (36 # t) = 36 # t"
proof (rule trim_id)
  show "36 # t \<noteq> []" by simp
  show "\<not> isWhiteSpace (hd (36 # t))" by (simp add: isWhiteSpace_def)
  show "\<not> isWhiteSpace (last (36 # t))" using assms by (simp add: isDigit_not_white)
qed

lemma not_endsWith_suffix: "t \<noteq> [] \<Longrightarrow> last t \<noteq> 162 \<Longrightarrow> \<not> endsWith t centsSuffix"
proof
  assume a: "t \<noteq> []" "last t \<noteq> 162" "endsWith t centsSuffix"
  from a(3) have l: "length centsSuffix \<le> length t"
    and d: "drop (length t - length centsSuffix) t = centsSuffix"
    by (simp_all add: endsWith_def)
  have "last (drop (length t - length centsSuffix) t) = last t"
    using l by (intro last_drop) (simp add: centsSuffix_def)
  then have "last t = last centsSuffix" using d by simp
  then show False using a(2) by (simp add: centsSuffix_def)
qed

lemma dollar_token_shape:
  assumes "t \<noteq> []" "isDigit (last t)"
  shows "trim (36 # t) = 36 # t" and "\<not> endsWith (36 # t) centsSuffix"
    and "startsWith (36 # t) (str ''$'')"
proof -
  show "trim (36 # t) = 36 # t" by (rule trim_dollar [OF assms])
  have "last (36 # t) \<noteq> 162" using assms by (auto simp: isDigit_def)
  then show "\<not> endsWith (36 # t) centsSuffix" by (intro not_endsWith_suffix) auto
  show "startsWith (36 # t) (str ''$'')" by (simp add: startsWith_def str_def)
qed

lemma parseAmount_dollar_decimal:
  assumes "list_all isDigit ip" "list_all isDigit fp" "fp \<noteq> []"
  shows "parseAmount (str ''$'' @ ip @ str ''.'' @ fp)
         = Inr (toDouble (of_nat (digitsValue (ip @ fp)) / 10 ^ length fp))"
    and "parseAmountString (str ''$'' @ ip @ str ''.'' @ fp)
         = Inr (toDouble (of_nat (digitsValue (ip @ fp)) / 10 ^ length fp))"
proof -
  let ?t = "ip @ 46 # fp"
  have l: "isDigit (last ?t)" using assms by (simp add: list_all_iff)
  have ne: "?t \<noteq> []" by simp
  note sh = dollar_token_shape [OF ne l]
  have nd: "\<not> list_all isDigit ?t" by (simp add: isDigit_def)
  have s: "str ''$'' @ ip @ str ''.'' @ fp = 36 # ?t" by (simp add: str_def)
  show "parseAmount (str ''$'' @ ip @ str ''.'' @ fp)
         = Inr (toDouble (of_nat (digitsValue (ip @ fp)) / 10 ^ length fp))"
    unfolding s using sh nd
    by (simp add: parseAmount_def parseFloat_decimal [OF assms] Let_def del: list_all_append)
  show "parseAmountString (str ''$'' @ ip @ str ''.'' @ fp)
         = Inr (toDouble (of_nat (digitsValue (ip @ fp)) / 10 ^ length fp))"
    unfolding s using sh
    by (simp add: parseAmountString_def parseFloat_decimal [OF assms] Let_def)
qed

lemma parseAmount_dollar_integer:
  assumes "ds \<noteq> []" "list_all isDigit ds"
  shows "parseAmount (str ''$'' @ ds)
         = Inl (ShellVariableAmount (toDouble (of_nat (digitsValue ds)))
                  (multiplyBy (toDouble (of_nat (digitsValue ds))) 100))"
proof -
  have l: "isDigit (last ds)" using assms by (simp add: list_all_iff)
  note sh = dollar_token_shape [OF assms(1) l]
  have s: "str ''$'' @ ds = 36 # ds" by (simp add: str_def)
  show ?thesis
    unfolding s using sh assms
    by (simp add: parseAmount_def parseIntDigits_def Let_def)
qed

text \<open>
  C6. In the send command, \<open>parseAmount\<close> on a dollar sign followed by a decimal with
  a fractional part (digits, a point, at least one digit) returns the Number value of
  that decimal; on a dollar sign followed by digits only it fails with the
  shell-variable error, which carries the integer and the cents to write instead.
\<close>

theorem parseAmount_dollar:
  "(list_all isDigit ip \<and> list_all isDigit fp \<and> fp \<noteq> [] \<longrightarrow>
      parseAmount (str ''$'' @ ip @ str ''.'' @ fp)
        = Inr (toDouble (of_nat (digitsValue (ip @ fp)) / 10 ^ length fp)))
   \<and> (ds \<noteq> [] \<and> list_all isDigit ds \<longrightarrow>
      parseAmount (str ''$'' @ ds)
        = Inl (ShellVariableAmount (toDouble (of_nat (digitsValue ds)))
                 (multiplyBy (toDouble (of_nat (digitsValue ds))) 100)))"
  using parseAmount_dollar_decimal(1) [of ip fp] parseAmount_dollar_integer [of ds]
  by blast

theorem parseAmount_dollar_witness:
  "parseAmount (str ''$0.5'') = Inr (Fin (1 / 2))
   \<and> parseAmount (str ''$1'') = Inl (ShellVariableAmount (Fin 1) (Fin 100))"
proof -
  have a: "list_all isDigit (str ''0'') \<and> list_all isDigit (str ''5'') \<and> str ''5'' \<noteq> []"
    by (simp add: str_def isDigit_def)
  have b: "str ''1'' \<noteq> [] \<and> list_all isDigit (str ''1'')"
    by (simp add: str_def isDigit_def)
  show ?thesis
    using parseAmount_dollar [of "str ''0''" "str ''5''" "str ''1''"] a b
    by (simp add: str_def digitsValue_def toDouble_half toDouble_one toDouble_hundred)
qed

lemma strUnsigned_nonneg:
  "strUnsignedDecimalLiteral t = NaN \<or> nonNegative (strUnsignedDecimalLiteral t)"
  by (auto simp: strUnsignedDecimalLiteral_def Let_def zero_le_power_int
      intro!: toDouble_nonneg mult_nonneg_nonneg)

lemma negate_negate [simp]: "negate (negate x) = x"
  by (cases x) auto

lemma negate_NaN_iff [simp]: "negate x = NaN \<longleftrightarrow> x = NaN"
  by (cases x) auto

lemma parseFloat_sign:
  assumes "parseFloat t \<noteq> NaN"
  shows "if leadingMinus t then nonNegative (negate (parseFloat t))
         else nonNegative (parseFloat t)"
proof (cases "trimStart t")
  case Nil
  with assms show ?thesis by (simp add: parseFloat_def)
next
  case (Cons c r)
  show ?thesis
  proof (cases "c = 45")
    case True
    with Cons assms strUnsigned_nonneg [of r] show ?thesis
      by (auto simp: parseFloat_def leadingMinus_def)
  next
    case False
    with Cons assms strUnsigned_nonneg [of r] strUnsigned_nonneg [of "c # r"] show ?thesis
      by (auto simp: parseFloat_def leadingMinus_def)
  qed
qed

lemma divideBy_nonneg: "0 < d \<Longrightarrow> nonNegative x \<Longrightarrow> nonNegative (divideBy x d)"
  by (cases x) (auto intro: toDouble_nonneg)

lemma divideBy_negate: "divideBy (negate x) d = negate (divideBy x d)"
  by (cases x) (auto simp: toDouble_minus [symmetric])

lemma divideBy_NaN_iff [simp]: "divideBy x d = NaN \<longleftrightarrow> x = NaN"
  by (cases x) auto

lemma parseAmount_shape:
  "parseAmount s =
     (if parseFloat (numericPart s) = NaN then
        Inl (if endsWith (trim s) centsSuffix then InvalidCentsAmount s
             else if startsWith (trim s) (str ''$'') then InvalidDollarAmount s
             else InvalidAmount s)
      else if endsWith (trim s) centsSuffix then Inr (divideBy (parseFloat (numericPart s)) 100)
      else if startsWith (trim s) (str ''$'') \<and> numericPart s \<noteq> []
              \<and> list_all isDigit (numericPart s)
        then Inl (ShellVariableAmount (parseIntDigits (numericPart s))
                    (multiplyBy (parseIntDigits (numericPart s)) 100))
      else Inr (parseFloat (numericPart s)))"
  by (auto simp: parseAmount_def numericPart_def Let_def parseFloat_digits)

lemma parseAmountString_shape:
  "parseAmountString s =
     (if parseFloat (numericPart s) = NaN then
        Inl (if endsWith (trim s) centsSuffix then InvalidCentsAmount s
             else if startsWith (trim s) (str ''$'') then InvalidDollarAmount s
             else InvalidAmount s)
      else if endsWith (trim s) centsSuffix then Inr (divideBy (parseFloat (numericPart s)) 100)
      else Inr (parseFloat (numericPart s)))"
  by (auto simp: parseAmountString_def numericPart_def Let_def)

lemma amount_sign:
  assumes "parseFloat t \<noteq> NaN" "v = parseFloat t \<or> v = divideBy (parseFloat t) 100"
  shows "if leadingMinus t then nonNegative (negate v) else nonNegative v"
proof (cases "leadingMinus t")
  case True
  then have "nonNegative (negate (parseFloat t))" using parseFloat_sign [OF assms(1)] by simp
  moreover then have "nonNegative (divideBy (negate (parseFloat t)) 100)"
    by (intro divideBy_nonneg) auto
  ultimately show ?thesis using True assms(2) by (auto simp: divideBy_negate)
next
  case False
  then have "nonNegative (parseFloat t)" using parseFloat_sign [OF assms(1)] by simp
  moreover then have "nonNegative (divideBy (parseFloat t) 100)"
    by (intro divideBy_nonneg) auto
  ultimately show ?thesis using False assms(2) by auto
qed

text \<open>Tokens evaluated: their trimmed form, their numeric part, their amount.\<close>

lemma plain_token:
  assumes "s \<noteq> []" "\<not> isWhiteSpace (hd s)" "\<not> isWhiteSpace (last s)" "last s \<noteq> 162"
    "hd s \<noteq> 36"
  shows "trim s = s" and "numericPart s = s" and "\<not> endsWith s centsSuffix"
    and "\<not> startsWith s (str ''$'')"
proof -
  show t: "trim s = s" by (rule trim_id [OF assms(1-3)])
  show e: "\<not> endsWith s centsSuffix" by (rule not_endsWith_suffix [OF assms(1,4)])
  show d: "\<not> startsWith s (str ''$'')"
    using assms(1,5) by (cases s) (auto simp: startsWith_def str_def)
  show "numericPart s = s" by (simp add: numericPart_def t e d)
qed

lemma parseFloat_minus_five: "parseFloat (str ''-5'') = Fin (- 5)"
proof -
  have d: "strUnsignedDecimalLiteral (str ''5'') = toDouble 5"
    using strUnsigned_digits [of "str ''5''"] by (simp add: str_def isDigit_def digitsValue_def)
  show ?thesis
    using d by (simp add: parseFloat_def trimStart_def str_def isWhiteSpace_def toDouble_five)
qed

lemma parseAmount_minus_five: "parseAmount (str ''-5'') = Inr (Fin (- 5))"
proof -
  have p: "str ''-5'' \<noteq> []" "\<not> isWhiteSpace (hd (str ''-5''))"
    "\<not> isWhiteSpace (last (str ''-5''))" "last (str ''-5'') \<noteq> 162" "hd (str ''-5'') \<noteq> 36"
    by (simp_all add: str_def isWhiteSpace_def)
  note sh = plain_token [OF p]
  show ?thesis
    by (simp add: parseAmount_shape sh parseFloat_minus_five)
qed

lemma leadingMinus_minus_five: "leadingMinus (numericPart (str ''-5''))"
proof -
  have p: "str ''-5'' \<noteq> []" "\<not> isWhiteSpace (hd (str ''-5''))"
    "\<not> isWhiteSpace (last (str ''-5''))" "last (str ''-5'') \<noteq> 162" "hd (str ''-5'') \<noteq> 36"
    by (simp_all add: str_def isWhiteSpace_def)
  show ?thesis
    by (simp add: plain_token(2) [OF p])
      (simp add: leadingMinus_def trimStart_def str_def isWhiteSpace_def)
qed

lemma parseFloat_half: "parseFloat (str ''0.5'') = Fin (1 / 2)"
proof -
  have "parseFloat (str ''0'' @ 46 # str ''5'')
      = toDouble (of_nat (digitsValue (str ''0'' @ str ''5'')) / 10 ^ length (str ''5''))"
    by (rule parseFloat_decimal) (simp_all add: str_def isDigit_def)
  then show ?thesis by (simp add: str_def digitsValue_def toDouble_half)
qed

lemma parseFloat_Infinity: "parseFloat (str ''Infinity'') = PosInf"
  by (simp add: parseFloat_def trimStart_def strUnsignedDecimalLiteral_def startsWith_def
      str_def isWhiteSpace_def)

lemma parseAmount_Infinity:
  "parseAmount (str ''Infinity'') = Inr PosInf"
  "parseAmountString (str ''Infinity'') = Inr PosInf"
proof -
  have p: "str ''Infinity'' \<noteq> []" "\<not> isWhiteSpace (hd (str ''Infinity''))"
    "\<not> isWhiteSpace (last (str ''Infinity''))" "last (str ''Infinity'') \<noteq> 162"
    "hd (str ''Infinity'') \<noteq> 36"
    by (simp_all add: str_def isWhiteSpace_def)
  note sh = plain_token [OF p]
  show "parseAmount (str ''Infinity'') = Inr PosInf"
    by (simp add: parseAmount_shape sh parseFloat_Infinity)
  show "parseAmountString (str ''Infinity'') = Inr PosInf"
    by (simp add: parseAmountString_shape sh parseFloat_Infinity)
qed

lemma parseFloat_abc: "parseFloat (str ''abc'') = NaN"
  by (simp add: parseFloat_def trimStart_def strUnsignedDecimalLiteral_def startsWith_def
      Let_def str_def isWhiteSpace_def isDigit_def)

lemma numericPart_abc: "numericPart (str ''abc'') = str ''abc''"
proof -
  have p: "str ''abc'' \<noteq> []" "\<not> isWhiteSpace (hd (str ''abc''))"
    "\<not> isWhiteSpace (last (str ''abc''))" "last (str ''abc'') \<noteq> 162"
    "hd (str ''abc'') \<noteq> 36"
    by (simp_all add: str_def isWhiteSpace_def)
  show ?thesis by (rule plain_token(2) [OF p])
qed

lemma numericPart_Infinity: "numericPart (str ''Infinity'') = str ''Infinity''"
proof -
  have p: "str ''Infinity'' \<noteq> []" "\<not> isWhiteSpace (hd (str ''Infinity''))"
    "\<not> isWhiteSpace (last (str ''Infinity''))" "last (str ''Infinity'') \<noteq> 162"
    "hd (str ''Infinity'') \<noteq> 36"
    by (simp_all add: str_def isWhiteSpace_def)
  show ?thesis by (rule plain_token(2) [OF p])
qed

lemma numericPart_dollar_half: "numericPart (str ''$0.5'') = str ''0.5''"
proof -
  have ne: "str ''0.5'' \<noteq> []" and l: "isDigit (last (str ''0.5''))"
    by (simp_all add: str_def isDigit_def)
  note sh = dollar_token_shape [OF ne l]
  have s: "str ''$0.5'' = 36 # str ''0.5''" by (simp add: str_def)
  show ?thesis unfolding s using sh by (simp add: numericPart_def)
qed

lemma parseAmount_dollar_half: "parseAmount (str ''$0.5'') = Inr (Fin (1 / 2))"
proof -
  have "parseAmount (str ''$'' @ str ''0'' @ str ''.'' @ str ''5'')
      = Inr (toDouble (of_nat (digitsValue (str ''0'' @ str ''5'')) / 10 ^ length (str ''5'')))"
    by (rule parseAmount_dollar_decimal(1)) (simp_all add: str_def isDigit_def)
  then show ?thesis by (simp add: str_def digitsValue_def toDouble_half)
qed

lemma not_leadingMinus_half: "\<not> leadingMinus (str ''0.5'')"
  by (simp add: leadingMinus_def trimStart_def str_def isWhiteSpace_def)

text \<open>
  C2 (as the code has it). Neither variant of \<open>parseAmount\<close> checks the sign. An
  accepted token whose numeric part carries no minus sign yields an amount that is
  \<open>>= 0\<close>; one whose numeric part starts with a minus sign is accepted as well and
  yields an amount that is \<open><= 0\<close>; a JSON number passes through the batch variant
  unchanged, whatever its sign.
\<close>

theorem parseAmount_sign:
  "(parseAmount s = Inr v \<and> \<not> leadingMinus (numericPart s) \<longrightarrow> nonNegative v)
   \<and> (parseAmount s = Inr v \<and> leadingMinus (numericPart s) \<longrightarrow> nonNegative (negate v))
   \<and> (batchParseAmount (JStr s) = Inr v \<and> \<not> leadingMinus (numericPart s) \<longrightarrow> nonNegative v)
   \<and> (batchParseAmount (JStr s) = Inr v \<and> leadingMinus (numericPart s)
        \<longrightarrow> nonNegative (negate v))
   \<and> batchParseAmount (JNum n) = Inr n"
proof -
  have a: "parseAmount s = Inr v \<Longrightarrow>
      parseFloat (numericPart s) \<noteq> NaN
      \<and> (v = parseFloat (numericPart s) \<or> v = divideBy (parseFloat (numericPart s)) 100)"
    by (auto simp: parseAmount_shape split: if_splits)
  have b: "parseAmountString s = Inr v \<Longrightarrow>
      parseFloat (numericPart s) \<noteq> NaN
      \<and> (v = parseFloat (numericPart s) \<or> v = divideBy (parseFloat (numericPart s)) 100)"
    by (auto simp: parseAmountString_shape split: if_splits)
  show ?thesis
    using amount_sign [of "numericPart s" v] a b by auto
qed

theorem parseAmount_sign_witness:
  "parseAmount (str ''$0.5'') = Inr (Fin (1 / 2))
   \<and> \<not> leadingMinus (numericPart (str ''$0.5'')) \<and> nonNegative (Fin (1 / 2))
   \<and> parseAmount (str ''-5'') = Inr (Fin (- 5))
   \<and> leadingMinus (numericPart (str ''-5'')) \<and> nonNegative (negate (Fin (- 5)))"
proof -
  have l: "\<not> leadingMinus (numericPart (str ''$0.5''))"
    by (simp add: numericPart_dollar_half not_leadingMinus_half)
  show ?thesis
    using parseAmount_sign [of "str ''$0.5''" "Fin (1 / 2)"] parseAmount_dollar_half l
      parseAmount_sign [of "str ''-5''" "Fin (- 5)"] parseAmount_minus_five
      leadingMinus_minus_five
    by blast
qed

text \<open>
  C2 as stated fails: the token \<open>-5\<close> is accepted by the send command and yields the
  amount \<open>-5\<close>, which is negative.
\<close>

theorem parseAmount_negative_counterexample:
  "parseAmount (str ''-5'') = Inr (Fin (- 5)) \<and> \<not> nonNegative (Fin (- 5))"
  using parseAmount_minus_five by simp

text \<open>
  C3 (as the code has it). The only numeric result \<open>parseAmount\<close> rejects is \<open>NaN\<close>.
  When the numeric part of a token parses to \<open>NaN\<close>, both variants fail with an
  invalid-amount error naming the raw token; otherwise the batch variant returns a
  number and the send variant returns a number or reports the shell-variable hazard.
  Neither ever returns \<open>NaN\<close>. An infinite result is returned like any other.
\<close>

theorem parseAmount_rejects_NaN:
  "parseAmount s \<noteq> Inr NaN
   \<and> batchParseAmount (JStr s) \<noteq> Inr NaN
   \<and> (parseFloat (numericPart s) = NaN \<longrightarrow>
        (\<exists>e. parseAmount s = Inl e \<and> isInvalidAmount s e)
        \<and> (\<exists>e. batchParseAmount (JStr s) = Inl e \<and> isInvalidAmount s e))
   \<and> (parseFloat (numericPart s) \<noteq> NaN \<longrightarrow>
        (\<exists>v. batchParseAmount (JStr s) = Inr v)
        \<and> ((\<exists>v. parseAmount s = Inr v)
            \<or> (\<exists>dollars cents. parseAmount s = Inl (ShellVariableAmount dollars cents))))"
  by (auto simp: parseAmount_shape parseAmountString_shape isInvalidAmount_def)

theorem parseAmount_rejects_NaN_witness:
  "parseFloat (numericPart (str ''abc'')) = NaN
   \<and> (\<exists>e. parseAmount (str ''abc'') = Inl e \<and> isInvalidAmount (str ''abc'') e)
   \<and> parseFloat (numericPart (str ''Infinity'')) \<noteq> NaN
   \<and> (\<exists>v. batchParseAmount (JStr (str ''Infinity'')) = Inr v)"
proof -
  have a: "parseFloat (numericPart (str ''abc'')) = NaN"
    by (simp add: numericPart_abc parseFloat_abc)
  have b: "parseFloat (numericPart (str ''Infinity'')) \<noteq> NaN"
    by (simp add: numericPart_Infinity parseFloat_Infinity)
  show ?thesis
    using parseAmount_rejects_NaN [of "str ''abc''"]
      parseAmount_rejects_NaN [of "str ''Infinity''"] a b
    by blast
qed

text \<open>
  C3 as stated fails: the token \<open>Infinity\<close> has a non-finite numeric interpretation,
  and the send command returns it instead of failing.
\<close>

theorem parseAmount_Infinity_counterexample:
  "parseAmount (str ''Infinity'') = Inr PosInf \<and> \<not> isFinite PosInf"
  using parseAmount_Infinity(1) by simp

section \<open>Properties of batch descriptors\<close>

lemma validateX_alice: "validateXUsername (str ''alice'') = Inr ()"
  by (simp add: validateXUsername_def xUsernamePattern_def regex_eval)

lemma validateX_bob: "validateXUsername (str ''bob'') = Inr ()"
  by (simp add: validateXUsername_def xUsernamePattern_def regex_eval)

lemma validateFor_x:
  "validateFor (Canonical (str ''x'')) r = validateXUsername r"
  by (simp add: validateReceiver_def)

lemma normalizePlatform_x: "normalizePlatform (str ''x'') = Inr (Canonical (str ''x''))"
  by (simp add: normalizePlatform_def platformMap_def toLowerCase_def lowerUnit_def str_def)

lemma five_cents: "parseAmountString (str ''5'' @ centsSymbol) = Inr (Fin 5)"
proof -
  have "parseAmountString (str ''5'' @ centsSymbol)
      = Inr (toDouble (of_nat (digitsValue (str ''5''))))"
    by (rule parseAmount_symbol_digits(2)) (simp_all add: str_def isDigit_def)
  then show ?thesis by (simp add: str_def digitsValue_def toDouble_five)
qed

lemma half_dollar: "parseAmountString (str ''$0.5'') = Inr (Fin (1 / 2))"
proof -
  have "parseAmountString (str ''$'' @ str ''0'' @ str ''.'' @ str ''5'')
      = Inr (toDouble (of_nat (digitsValue (str ''0'' @ str ''5'')) / 10 ^ length (str ''5'')))"
    by (rule parseAmount_dollar_decimal(2)) (simp_all add: str_def isDigit_def)
  then show ?thesis by (simp add: str_def digitsValue_def toDouble_half)
qed

lemmas batch_eval =
  validateX_alice [unfolded str_def, simplified]
  validateX_bob [unfolded str_def, simplified]
  normalizePlatform_x [unfolded str_def, simplified]
  five_cents [unfolded str_def centsSymbol_def, simplified]
  half_dollar [unfolded str_def, simplified]

lemma comma_form:
  "parseCommaSeparated (str ''x/alice:5'' @ centsSymbol @ str '',bob:$0.5'')
   = Inr \<lparr>batchPlatform = Canonical (str ''x''),
          batchPayments = [(JStr (str ''alice''), Fin 5),
                           (JStr (str ''bob''), Fin (1 / 2))]\<rparr>"
  by (simp add: parseCommaSeparated_def lastIndexOf_def validateReceiver_def Let_def
      str_def centsSymbol_def batch_eval)

lemma json_form:
  "parseJSONPayments nts
     (JObj [(str ''platform'', JStr (str ''x'')),
            (str ''payments'',
             JArr [JObj [(str ''receiver'', JStr (str ''alice'')),
                         (str ''amount'', JStr (str ''5'' @ centsSymbol))],
                   JObj [(str ''receiver'', JStr (str ''bob'')),
                         (str ''amount'', JStr (str ''$0.5''))]])])
   = Inr \<lparr>batchPlatform = Canonical (str ''x''),
          batchPayments = [(JStr (str ''alice''), Fin 5),
                           (JStr (str ''bob''), Fin (1 / 2))]\<rparr>"
  by (simp add: parseJSONPayments_def getProp_def readProp_def validateReceiver_def
      str_def centsSymbol_def batch_eval)

text \<open>
  C4 at its input. The compact form \<open>x/alice:5\<cent>,bob:$0.5\<close> and the JSON object with
  platform \<open>x\<close> and the payments \<open>{alice, "5\<cent>"}\<close>, \<open>{bob, "$0.5"}\<close> (as
  \<open>JSON.parse\<close> yields it) give the same batch descriptor, with platform \<open>x\<close> and
  bob's 0.5; but alice's amount is 5 in both, not 0.05: the token \<open>5\<cent>\<close> does not end
  with the two-unit suffix that the cents branch tests, and is read as a plain decimal.
\<close>

theorem batch_forms_cents_unscaled:
  "parseCommaSeparated (str ''x/alice:5'' @ centsSymbol @ str '',bob:$0.5'')
   = Inr \<lparr>batchPlatform = Canonical (str ''x''),
          batchPayments = [(JStr (str ''alice''), Fin 5),
                           (JStr (str ''bob''), Fin (1 / 2))]\<rparr>
   \<and> parseJSONPayments (\<lambda>n. [])
       (JObj [(str ''platform'', JStr (str ''x'')),
              (str ''payments'',
               JArr [JObj [(str ''receiver'', JStr (str ''alice'')),
                           (str ''amount'', JStr (str ''5'' @ centsSymbol))],
                     JObj [(str ''receiver'', JStr (str ''bob'')),
                           (str ''amount'', JStr (str ''$0.5''))]])])
     = Inr \<lparr>batchPlatform = Canonical (str ''x''),
            batchPayments = [(JStr (str ''alice''), Fin 5),
                             (JStr (str ''bob''), Fin (1 / 2))]\<rparr>
   \<and> toDouble (5 / 100) = Fin (3602879701896397 / 72057594037927936)"
  by (simp only: comma_form json_form) (simp add: toDouble_twentieth)

section \<open>Properties of the extractor\<close>

lemmas pattern_defs = sendPattern_def payPattern_def userOnPattern_def spaces_def
  amountDigits_def platformNames_def jsonArrayPattern_def

lemma send_found:
  "regexExec sendPattern True (str ''Send 0.5 USDC to @alice on farcaster'') 0
   = Some (0, 36, [(3, 27, 36), (2, 18, 23), (Suc 0, 5, 8)])"
  by (simp add: regex_eval pattern_defs)

lemma send_no_more:
  "regexExec sendPattern True (str ''Send 0.5 USDC to @alice on farcaster'') 36 = None"
  by (simp add: regex_eval pattern_defs)

lemma pay_none:
  "regexExec payPattern True (str ''Send 0.5 USDC to @alice on farcaster'') 0 = None"
  by (simp add: regex_eval pattern_defs)

lemma userOn_none:
  "regexExec userOnPattern True (str ''Send 0.5 USDC to @alice on farcaster'') 0 = None"
  by (simp add: regex_eval pattern_defs)

lemma execAll_none: "regexExec r ic inp i = None \<Longrightarrow> execAll r ic inp i = Some []"
  by (subst execAll.simps) simp

lemma execAll_one:
  "regexExec r ic inp i = Some m \<Longrightarrow> i < matchEnd m \<Longrightarrow>
   regexExec r ic inp (matchEnd m) = None \<Longrightarrow> execAll r ic inp i = Some [m]"
  by (subst execAll.simps) (simp add: execAll_none)

lemma send_all:
  "execAll sendPattern True (str ''Send 0.5 USDC to @alice on farcaster'') 0
   = Some [(0, 36, [(3, 27, 36), (2, 18, 23), (Suc 0, 5, 8)])]"
  by (rule execAll_one [OF send_found]) (simp_all add: matchEnd_def send_no_more)

lemma send_instruction:
  "instructionOf SendTo (str ''Send 0.5 USDC to @alice on farcaster'')
     (0, 36, [(3, 27, 36), (2, 18, 23), (Suc 0, 5, 8)])
   = \<lparr>instReceiver = str ''alice'', instAmount = Fin (1 / 2),
      instPlatform = str ''farcaster''\<rparr>"
  by (simp add: capture_def toLowerCase_def lowerUnit_def str_def
      parseFloat_half [unfolded str_def, simplified])

lemma fallback_prompt:
  "fallbackParser (str ''Send 0.5 USDC to @alice on farcaster'')
   = Some [\<lparr>instReceiver = str ''alice'', instAmount = Fin (1 / 2),
            instPlatform = str ''farcaster''\<rparr>]"
  by (simp add: fallbackParser_def patterns_def matchesOf_def send_all send_instruction
      execAll_none [OF pay_none] execAll_none [OF userOn_none] del: instructionOf.simps)

text \<open>
  C9. With neither API key configured, the extractor applied to
  \<open>Send 0.5 USDC to @alice on farcaster\<close> returns exactly one instruction: receiver
  \<open>alice\<close>, amount 0.5, platform \<open>farcaster\<close>. Only the first template matches, once.
\<close>

theorem parsePaymentRequest_no_model:
  "\<not> keySet (openaiApiKey env) \<and> \<not> keySet (anthropicApiKey env) \<longrightarrow>
   parsePaymentRequest env (str ''Send 0.5 USDC to @alice on farcaster'')
   = Some (Inr (Matched [\<lparr>instReceiver = str ''alice'', instAmount = Fin (1 / 2),
                           instPlatform = str ''farcaster''\<rparr>]))"
  by (simp add: parsePaymentRequest_def fallback_prompt)

theorem parsePaymentRequest_no_model_witness:
  "parsePaymentRequest noModel (str ''Send 0.5 USDC to @alice on farcaster'')
   = Some (Inr (Matched [\<lparr>instReceiver = str ''alice'', instAmount = Fin (1 / 2),
                           instPlatform = str ''farcaster''\<rparr>]))"
  using parsePaymentRequest_no_model [of noModel]
  by (simp add: noModel_def keySet_def)

lemma reply_no_array:
  "regexExec jsonArrayPattern False (str ''I cannot help with that.'') 0 = None"
  by (simp add: regex_eval pattern_defs)

lemma reply_no_template:
  "regexExec sendPattern True (str ''I cannot help with that.'') 0 = None"
  "regexExec payPattern True (str ''I cannot help with that.'') 0 = None"
  "regexExec userOnPattern True (str ''I cannot help with that.'') 0 = None"
  by (simp_all add: regex_eval pattern_defs)

lemma fallback_reply: "fallbackParser (str ''I cannot help with that.'') = Some []"
  by (simp add: fallbackParser_def patterns_def matchesOf_def
      execAll_none [OF reply_no_template(1)] execAll_none [OF reply_no_template(2)]
      execAll_none [OF reply_no_template(3)])

lemma parseAIResponse_no_array:
  "regexExec jsonArrayPattern False content 0 = None \<Longrightarrow>
   parseAIResponse jp content = map_option (\<lambda>is. Inr (Matched is)) (fallbackParser content)"
  by (simp add: parseAIResponse_def)

text \<open>
  C8 at a failing input. The model answers the prompt
  \<open>Send 0.5 USDC to @alice on farcaster\<close> with \<open>I cannot help with that.\<close>, a text
  without a bracketed array. \<open>parseAIResponse\<close> runs the templates on that answer, not
  on the prompt, and the extractor returns no instruction, although the templates find
  one in the prompt.
\<close>

theorem parseAIResponse_ignores_prompt:
  "parsePaymentRequest refusingModel (str ''Send 0.5 USDC to @alice on farcaster'')
   = Some (Inr (Matched []))
   \<and> fallbackParser (str ''Send 0.5 USDC to @alice on farcaster'')
     = Some [\<lparr>instReceiver = str ''alice'', instAmount = Fin (1 / 2),
              instPlatform = str ''farcaster''\<rparr>]"
  by (simp add: parsePaymentRequest_def parseWithOpenAI_def refusingModel_def keySet_def
      parseAIResponse_no_array [OF reply_no_array] fallback_reply fallback_prompt)
    (simp add: str_def)

end
